theory Spec2Isabelle
  imports Main
begin

section \<open>The table-metadata API client (ducks/tableMetadata/api/v0.ts)\<close>

text \<open>
  The module is a flat set of functions that build a request, hand it to axios and chain
  handlers on the promise axios returns. The embedding has three layers:
  \<^item> the axios data types (request configuration, response, error) as records;
  \<^item> promises as a datatype: a promise is settled, or waits for the answer to a request
    that has been sent, and \<open>.then\<close>/\<open>.catch\<close> are functions on that datatype;
  \<^item> the objects the functions mutate (\<open>tableData\<close> and its columns) in an explicit heap,
    handed to every handler when it runs and returned by it.
  The helpers of \<open>./helpers\<close> and the interfaces of \<open>interfaces\<close> are not part of this
  file of the repository: each helper is a parameter of the function that calls it, and
  an interface is a record with the fields the code reads (extensible, so every other
  field is carried along) or a type variable where the code never looks inside.
\<close>

subsection \<open>axios: requests, responses, errors\<close>

datatype Method = GET | POST | PUT | DELETE

record 'b AxiosRequestConfig =
  url :: string
  "method" :: Method
  data :: "'b option"

record 'd AxiosResponse =
  data :: 'd
  status :: int

text \<open>\<open>AxiosError<T>\<close>: \<open>response\<close> is optional (absent when no answer arrived).\<close>

record 'd AxiosError =
  message :: string
  response :: "'d AxiosResponse option"

datatype js_error = TypeError

text \<open>
  What a promise that starts at axios is rejected with, unless a handler rejects with a
  value of its own: the transport error axios produced, or an exception thrown inside a
  handler.
\<close>

datatype 'd reason = AxiosErr "'d AxiosError" | Thrown js_error

subsection \<open>Promises\<close>

text \<open>
  \<open>Pending r k\<close> is a promise whose request \<open>r\<close> has been sent: when the outcome arrives
  (an error or a response) the handler \<open>k\<close> runs on the state of that moment and gives the
  promise that takes over, with the new state. \<open>Deferred j\<close> is a promise whose handler is
  queued and runs without waiting for the network. \<open>'b\<close> is the type of request bodies,
  \<open>'d\<close> of response bodies, \<open>'s\<close> the program state, \<open>'e\<close> the rejection reasons and \<open>'a\<close>
  the fulfilment values.
\<close>

datatype ('b, 'd, 's, 'e, 'a) promise =
    Resolved 'a
  | Rejected 'e
  | Deferred "'s \<Rightarrow> ('b, 'd, 's, 'e, 'a) promise \<times> 's"
  | Pending "'b AxiosRequestConfig"
            "'d AxiosError + 'd AxiosResponse \<Rightarrow> 's \<Rightarrow> ('b, 'd, 's, 'e, 'a) promise \<times> 's"

text \<open>\<open>p.then(f)\<close>: \<open>f\<close> runs on fulfilment; a rejection passes through untouched.\<close>

primrec promise_then :: "('b, 'd, 's, 'e, 'a) promise
    \<Rightarrow> ('a \<Rightarrow> 's \<Rightarrow> ('b, 'd, 's, 'e, 'c) promise \<times> 's) \<Rightarrow> ('b, 'd, 's, 'e, 'c) promise" where
  "promise_then (Resolved a) f = Deferred (f a)"
| "promise_then (Rejected e) f = Rejected e"
| "promise_then (Deferred j) f = Deferred (\<lambda>s. map_prod (\<lambda>p. promise_then p f) id (j s))"
| "promise_then (Pending r k) f =
     Pending r (\<lambda>out s. map_prod (\<lambda>p. promise_then p f) id (k out s))"

text \<open>\<open>p.catch(h)\<close>: \<open>h\<close> runs on rejection; a fulfilment passes through untouched.\<close>

primrec promise_catch :: "('b, 'd, 's, 'e, 'a) promise
    \<Rightarrow> ('e \<Rightarrow> 's \<Rightarrow> ('b, 'd, 's, 'f, 'a) promise \<times> 's) \<Rightarrow> ('b, 'd, 's, 'f, 'a) promise" where
  "promise_catch (Resolved a) h = Resolved a"
| "promise_catch (Rejected e) h = Deferred (h e)"
| "promise_catch (Deferred j) h = Deferred (\<lambda>s. map_prod (\<lambda>p. promise_catch p h) id (j s))"
| "promise_catch (Pending r k) h =
     Pending r (\<lambda>out s. map_prod (\<lambda>p. promise_catch p h) id (k out s))"

text \<open>
  JavaScript values are untagged; where a handler returns either a promise or nothing,
  the fulfilment value of the promise is retagged (\<open>Some\<close>) to share a type with nothing.
\<close>

primrec promise_map :: "('a \<Rightarrow> 'c) \<Rightarrow> ('b, 'd, 's, 'e, 'a) promise \<Rightarrow> ('b, 'd, 's, 'e, 'c) promise" where
  "promise_map g (Resolved a) = Resolved (g a)"
| "promise_map g (Rejected e) = Rejected e"
| "promise_map g (Deferred j) = Deferred (\<lambda>s. map_prod (promise_map g) id (j s))"
| "promise_map g (Pending r k) = Pending r (\<lambda>out s. map_prod (promise_map g) id (k out s))"

text \<open>\<open>axios(config)\<close> sends the request and returns the promise of its response.\<close>

definition axios :: "'b AxiosRequestConfig \<Rightarrow> ('b, 'd, 's, 'd reason, 'd AxiosResponse) promise" where
  "axios config =
     Pending config (\<lambda>out s. (case out of Inl e \<Rightarrow> Rejected (AxiosErr e) | Inr r \<Rightarrow> Resolved r, s))"

definition axios_get :: "string \<Rightarrow> ('b, 'd, 's, 'd reason, 'd AxiosResponse) promise" where
  "axios_get u = axios \<lparr>url = u, method = GET, AxiosRequestConfig.data = None\<rparr>"

definition axios_put :: "string \<Rightarrow> 'b \<Rightarrow> ('b, 'd, 's, 'd reason, 'd AxiosResponse) promise" where
  "axios_put u body = axios \<lparr>url = u, method = PUT, AxiosRequestConfig.data = Some body\<rparr>"

definition axios_post :: "string \<Rightarrow> 'b \<Rightarrow> ('b, 'd, 's, 'd reason, 'd AxiosResponse) promise" where
  "axios_post u body = axios \<lparr>url = u, method = POST, AxiosRequestConfig.data = Some body\<rparr>"

text \<open>The requests a promise is waiting for at the moment it is handed out.\<close>

fun inflight :: "('b, 'd, 's, 'e, 'a) promise \<Rightarrow> 'b AxiosRequestConfig list" where
  "inflight (Pending r k) = [r]"
| "inflight p = []"

text \<open>
  Running a promise against a server from a state. The server \<open>srv\<close> gives the outcome of
  a request from the requests this promise has sent before it, so it may answer the same
  request differently the second time. The result lists the requests in the order they
  were sent, how the promise settled, and the final state.
\<close>

primrec run :: "('b AxiosRequestConfig list \<Rightarrow> 'b AxiosRequestConfig \<Rightarrow> 'd AxiosError + 'd AxiosResponse)
    \<Rightarrow> ('b, 'd, 's, 'e, 'a) promise \<Rightarrow> 'b AxiosRequestConfig list \<Rightarrow> 's
    \<Rightarrow> 'b AxiosRequestConfig list \<times> ('e + 'a) \<times> 's" where
  "run srv (Resolved a) = (\<lambda>sent s. ([], Inr a, s))"
| "run srv (Rejected e) = (\<lambda>sent s. ([], Inl e, s))"
| "run srv (Deferred j) = (\<lambda>sent s. case map_prod (run srv) id (j s) of (g, s') \<Rightarrow> g sent s')"
| "run srv (Pending r k) = (\<lambda>sent s. case map_prod (run srv) id (k (srv sent r) s) of
       (g, s') \<Rightarrow> (case g (sent @ [r]) s' of (t, x, s'') \<Rightarrow> (r # t, x, s'')))"

subsection \<open>\<open>Promise.all\<close> of two promises\<close>

text \<open>
  \<open>Promise.all([p, q])\<close> followed by handlers: both members are waited for at once; it is
  fulfilled with both values when both are fulfilled and rejected with the reason of the
  member that is rejected first. The two members may answer with different types.
\<close>

datatype ('b, 'd1, 'd2, 's, 'e1, 'e2, 'a1, 'a2, 'r) promise_all =
  All "('b, 'd1, 's, 'e1, 'a1) promise" "('b, 'd2, 's, 'e2, 'a2) promise"
      "'a1 \<times> 'a2 \<Rightarrow> 's \<Rightarrow> (('e1 + 'e2) + 'r) \<times> 's"

definition Promise_all :: "('b, 'd1, 's, 'e1, 'a1) promise \<Rightarrow> ('b, 'd2, 's, 'e2, 'a2) promise
    \<Rightarrow> ('b, 'd1, 'd2, 's, 'e1, 'e2, 'a1, 'a2, 'a1 \<times> 'a2) promise_all" where
  "Promise_all p q = All p q (\<lambda>v s. (Inr v, s))"

fun all_then :: "('b, 'd1, 'd2, 's, 'e1, 'e2, 'a1, 'a2, 'r) promise_all
    \<Rightarrow> ('r \<Rightarrow> 's \<Rightarrow> (('e1 + 'e2) + 'r2) \<times> 's)
    \<Rightarrow> ('b, 'd1, 'd2, 's, 'e1, 'e2, 'a1, 'a2, 'r2) promise_all" where
  "all_then (All p q k) f =
     All p q (\<lambda>v s. case k v s of (Inl e, s') \<Rightarrow> (Inl e, s') | (Inr w, s') \<Rightarrow> f w s')"

fun inflight_all :: "('b, 'd1, 'd2, 's, 'e1, 'e2, 'a1, 'a2, 'r) promise_all
    \<Rightarrow> 'b AxiosRequestConfig list" where
  "inflight_all (All p q k) = inflight p @ inflight q"

text \<open>
  \<open>p_first\<close> says which member settles first; it decides the reason when both are
  rejected, and the order in which the members' handlers touch the state.
\<close>

fun all_settle :: "bool \<Rightarrow> 'e1 + 'a1 \<Rightarrow> 'e2 + 'a2 \<Rightarrow> ('e1 + 'e2) + 'a1 \<times> 'a2" where
  "all_settle p_first (Inr a) (Inr b) = Inr (a, b)"
| "all_settle p_first (Inl e) (Inr b) = Inl (Inl e)"
| "all_settle p_first (Inr a) (Inl e) = Inl (Inr e)"
| "all_settle p_first (Inl e1) (Inl e2) = Inl (if p_first then Inl e1 else Inr e2)"

text \<open>
  Each member has its own server, which sees the requests of that member only. The
  requests are listed member by member (those of \<open>p\<close>, then those of \<open>q\<close>); between the
  members the list fixes no order.
\<close>

fun run_all :: "bool
    \<Rightarrow> ('b AxiosRequestConfig list \<Rightarrow> 'b AxiosRequestConfig \<Rightarrow> 'd1 AxiosError + 'd1 AxiosResponse)
    \<Rightarrow> ('b AxiosRequestConfig list \<Rightarrow> 'b AxiosRequestConfig \<Rightarrow> 'd2 AxiosError + 'd2 AxiosResponse)
    \<Rightarrow> ('b, 'd1, 'd2, 's, 'e1, 'e2, 'a1, 'a2, 'r) promise_all \<Rightarrow> 's
    \<Rightarrow> 'b AxiosRequestConfig list \<times> (('e1 + 'e2) + 'r) \<times> 's" where
  "run_all p_first srv1 srv2 (All p q k) s =
     (let (t1, r1, t2, r2, s2) =
        (if p_first
         then (case run srv1 p [] s of (t1, r1, s1) \<Rightarrow>
                 case run srv2 q [] s1 of (t2, r2, s2) \<Rightarrow> (t1, r1, t2, r2, s2))
         else (case run srv2 q [] s of (t2, r2, s1) \<Rightarrow>
                 case run srv1 p [] s1 of (t1, r1, s2) \<Rightarrow> (t1, r1, t2, r2, s2)))
      in case all_settle p_first r1 r2 of
           Inl e \<Rightarrow> (t1 @ t2, Inl e, s2)
         | Inr v \<Rightarrow> (case k v s2 of (res, s3) \<Rightarrow> (t1 @ t2, res, s3)))"

subsection \<open>The data model\<close>

text \<open>
  Objects that the functions receive by reference and may mutate live in a heap: a
  reference is an address, always valid (TypeScript's types exclude \<open>null\<close>), and
  \<open>tableData.columns\<close> is an array of references to column objects.
\<close>

type_synonym ref = nat

record Column =
  name :: string
  description :: string

record TableMetadata =
  key :: string
  columns :: "ref list"
  description :: string

record ('t, 'c) heap =
  tables :: "ref \<Rightarrow> 't TableMetadata_scheme"
  cols :: "ref \<Rightarrow> 'c Column_scheme"

text \<open>
  Reading \<open>xs[i]\<close> in JavaScript: \<open>undefined\<close> (here \<open>None\<close>) outside the array, with no
  exception. The index is an integral \<open>number\<close>.
\<close>

definition at_index :: "'a list \<Rightarrow> int \<Rightarrow> 'a option" where
  "at_index xs i = (if 0 \<le> i \<and> i < int (length xs) then Some (xs ! nat i) else None)"

text \<open>The response bodies, as the type annotations of the handlers give them.\<close>

record DescriptionAPI =
  description :: string
  msg :: string

record LastIndexedAPI =
  timestamp :: string
  msg :: string

text \<open>
  \<open>getPreviewData\<close> tests \<open>response.data\<close> and \<open>response.data.previewData\<close> as
  conditions before it uses them, so for this function a body and a \<open>previewData\<close> are any
  JavaScript value a response can carry: \<open>undefined\<close> (a missing property), \<open>null\<close>, a
  boolean, a number (of which only being zero matters here), a string, or an object.
\<close>

datatype 'o js_value =
    JsUndefined | JsNull | JsBoolean bool | JsNumber int | JsString string | JsObject 'o

text \<open>The value as a condition (\<open>if (v)\<close>, \<open>v && ...\<close>): an object is always truthy.\<close>

fun truthy :: "'o js_value \<Rightarrow> bool" where
  "truthy JsUndefined = False"
| "truthy JsNull = False"
| "truthy (JsBoolean b) = b"
| "truthy (JsNumber n) = (n \<noteq> 0)"
| "truthy (JsString str) = (str \<noteq> [])"
| "truthy (JsObject ob) = True"

text \<open>Reading a property of \<open>undefined\<close> or \<open>null\<close> throws a \<open>TypeError\<close>.\<close>

fun nullish :: "'o js_value \<Rightarrow> bool" where
  "nullish JsUndefined = True"
| "nullish JsNull = True"
| "nullish v = False"

record 'pd PreviewDataAPI =
  previewData :: "'pd js_value"

text \<open>
  \<open>body.previewData\<close> for a body that is not nullish: the field of an object, and
  \<open>undefined\<close> for a boolean, a number or a string, which have no such property.
\<close>

fun read_previewData :: "('pd, 'z) PreviewDataAPI_scheme js_value \<Rightarrow> 'pd js_value" where
  "read_previewData (JsObject body) = previewData body"
| "read_previewData v = JsUndefined"

text \<open>\<open>TableData = TableMetadata & {owners, tags}\<close>, here as it arrives in a response.\<close>

record ('o, 'g) TableData =
  owners :: "'o list"
  tags :: "'g list"

record 'td TableDataAPI =
  tableData :: 'td
  msg :: string

record 'db RelatedDashboardDataAPI =
  dashboards :: "'db list"

text \<open>The body of the user response (\<open>response.data.user\<close>).\<close>

record 'u UserAPI =
  user :: 'u

record UpdateOwnerPayload =
  id :: string

text \<open>The objects the functions build.\<close>

record ('tm, 'ow, 'g) TableDataResult =
  data :: 'tm
  owners :: 'ow
  tags :: "'g list"
  statusCode :: int

text \<open>
  The \<open>data\<close> of a preview result: the value read from \<open>previewData\<close>, or the empty
  object \<open>{}\<close> the catch handler starts from.
\<close>

datatype 'pd preview = Payload "'pd js_value" | EmptyObject

record 'pd PreviewResult =
  data :: "'pd preview"
  status :: "int option"

definition API_PATH :: string where
  "API_PATH = ''/api/metadata/v0''"

subsection \<open>The exported functions\<close>

text \<open>
  Each definition takes the helpers it calls first, then the parameters of the source
  function, then (where the function reads an object) the heap at the time of the call.
\<close>

definition getTableData ::
  "(string \<Rightarrow> string) \<Rightarrow> (string \<Rightarrow> string option \<Rightarrow> string option \<Rightarrow> string)
   \<Rightarrow> (('o, 'g, 'm) TableData_scheme TableDataAPI \<Rightarrow> 'db RelatedDashboardDataAPI \<Rightarrow> 'tm)
   \<Rightarrow> (('o, 'g, 'm) TableData_scheme TableDataAPI \<Rightarrow> 'ow)
   \<Rightarrow> string \<Rightarrow> string option \<Rightarrow> string option
   \<Rightarrow> ('b, ('o, 'g, 'm) TableData_scheme TableDataAPI, 'db RelatedDashboardDataAPI, 's,
        ('o, 'g, 'm) TableData_scheme TableDataAPI reason,
        'db RelatedDashboardDataAPI reason,
        ('o, 'g, 'm) TableData_scheme TableDataAPI AxiosResponse,
        'db RelatedDashboardDataAPI AxiosResponse,
        ('tm, 'ow, 'g) TableDataResult) promise_all" where
  "getTableData getRelatedDashboardSlug getTableQueryParams getTableDataFromResponseData
      getTableOwnersFromResponseData =
   (\<lambda>tableKey index source.
     let relatedDashboardsSlug = getRelatedDashboardSlug tableKey;
         relatedDashboardsURL = API_PATH @ ''/table/'' @ relatedDashboardsSlug @ ''/dashboards'';
         relatedDashboardsRequest = axios_get relatedDashboardsURL;
         tableQueryParams = getTableQueryParams tableKey index source;
         tableURL = API_PATH @ ''/table?'' @ tableQueryParams;
         tableRequest = axios_get tableURL
     in all_then (Promise_all tableRequest relatedDashboardsRequest)
          (\<lambda>(tableResponse, relatedDashboardsResponse) s.
             (Inr \<lparr>TableDataResult.data =
                      getTableDataFromResponseData (AxiosResponse.data tableResponse)
                        (AxiosResponse.data relatedDashboardsResponse),
                    TableDataResult.owners =
                      getTableOwnersFromResponseData (AxiosResponse.data tableResponse),
                    TableDataResult.tags =
                      TableData.tags (tableData (AxiosResponse.data tableResponse)),
                    statusCode = AxiosResponse.status tableResponse\<rparr>, s)))"

definition getTableDescription ::
  "(string \<Rightarrow> string option \<Rightarrow> string option \<Rightarrow> string)
   \<Rightarrow> ref \<Rightarrow> ('t, 'c) heap
   \<Rightarrow> ('b, DescriptionAPI, ('t, 'c) heap, DescriptionAPI reason, ref) promise" where
  "getTableDescription getTableQueryParams =
   (\<lambda>tableData h.
     let tableParams = getTableQueryParams (key (tables h tableData)) None None
     in promise_then (axios_get (API_PATH @ ''/get_table_description?'' @ tableParams))
          (\<lambda>response h'.
             (Resolved tableData,
              h'\<lparr>tables := (tables h')(tableData := (tables h' tableData)
                   \<lparr>TableMetadata.description :=
                      DescriptionAPI.description (AxiosResponse.data response)\<rparr>)\<rparr>)))"

definition updateTableDescription ::
  "string \<Rightarrow> ref \<Rightarrow> ('t, 'c) heap
   \<Rightarrow> ((string \<times> string) list, 'd, 's, 'd reason, 'd AxiosResponse) promise" where
  "updateTableDescription =
   (\<lambda>description tableData h.
     axios_put (API_PATH @ ''/put_table_description'')
       [(''description'', description),
        (''key'', key (tables h tableData)),
        (''source'', ''user'')])"

definition getTableOwners ::
  "(string \<Rightarrow> string option \<Rightarrow> string option \<Rightarrow> string)
   \<Rightarrow> ('td TableDataAPI \<Rightarrow> 'ow)
   \<Rightarrow> string \<Rightarrow> ('b, 'td TableDataAPI, 's, 'td TableDataAPI reason, 'ow) promise" where
  "getTableOwners getTableQueryParams getTableOwnersFromResponseData =
   (\<lambda>tableKey.
     let tableParams = getTableQueryParams tableKey None None
     in promise_then (axios_get (API_PATH @ ''/table?'' @ tableParams))
          (\<lambda>response s.
             (Resolved (getTableOwnersFromResponseData (AxiosResponse.data response)), s)))"

text \<open>
  \<open>forEach\<close> with \<open>push\<close> is a fold that appends. The second handler returns the promise
  of the notification, or nothing (\<open>None\<close>).
\<close>

definition generateOwnerUpdateRequests ::
  "('i UpdateOwnerPayload_scheme \<Rightarrow> string \<Rightarrow> 'b AxiosRequestConfig)
   \<Rightarrow> ('i UpdateOwnerPayload_scheme \<Rightarrow> ref \<Rightarrow> ('t, 'c) heap \<Rightarrow> 'b)
   \<Rightarrow> ('u \<Rightarrow> bool)
   \<Rightarrow> 'i UpdateOwnerPayload_scheme list \<Rightarrow> ref \<Rightarrow> ('t, 'c) heap
   \<Rightarrow> ('b, 'u UserAPI, 's, 'u UserAPI reason, 'u UserAPI AxiosResponse option) promise list" where
  "generateOwnerUpdateRequests createOwnerUpdatePayload createOwnerNotificationData
      shouldSendNotification =
   (\<lambda>updateArray tableData h.
     fold (\<lambda>item updateRequests.
        let updatePayload = createOwnerUpdatePayload item (key (tables h tableData));
            notificationData = createOwnerNotificationData item tableData h;
            request =
              promise_then
                (promise_then (axios updatePayload)
                   (\<lambda>response s.
                      (axios_get (''/api/metadata/v0/user?user_id='' @ UpdateOwnerPayload.id item), s)))
                (\<lambda>response s.
                   (if shouldSendNotification (user (AxiosResponse.data response))
                    then promise_map Some (axios_post ''/api/mail/v0/notification'' notificationData)
                    else Resolved None, s))
        in updateRequests @ [request])
      updateArray [])"

text \<open>
  \<open>tableData.columns[columnIndex].name\<close> throws a \<open>TypeError\<close> when the element is
  \<open>undefined\<close>; it is read before axios is called, so the function then returns nothing
  (\<open>Inl\<close>). The handler reads \<open>tableData.columns[columnIndex]\<close> again when it runs.
\<close>

definition getColumnDescription ::
  "(string \<Rightarrow> string option \<Rightarrow> string option \<Rightarrow> string)
   \<Rightarrow> int \<Rightarrow> ref \<Rightarrow> ('t, 'c) heap
   \<Rightarrow> js_error + ('b, DescriptionAPI, ('t, 'c) heap, DescriptionAPI reason, ref) promise" where
  "getColumnDescription getTableQueryParams =
   (\<lambda>columnIndex tableData h.
     let tableParams = getTableQueryParams (key (tables h tableData)) None None
     in case at_index (columns (tables h tableData)) columnIndex of
          None \<Rightarrow> Inl TypeError
        | Some column \<Rightarrow>
            let columnName = name (cols h column)
            in Inr (promise_then
                 (axios_get (API_PATH @ ''/get_column_description?'' @ tableParams
                               @ ''&column_name='' @ columnName))
                 (\<lambda>response h'.
                    case at_index (columns (tables h' tableData)) columnIndex of
                      None \<Rightarrow> (Rejected (Thrown TypeError), h')
                    | Some column' \<Rightarrow>
                        (Resolved tableData,
                         h'\<lparr>cols := (cols h')(column' := (cols h' column')
                              \<lparr>Column.description :=
                                 DescriptionAPI.description (AxiosResponse.data response)\<rparr>)\<rparr>))))"

definition updateColumnDescription ::
  "string \<Rightarrow> int \<Rightarrow> ref \<Rightarrow> ('t, 'c) heap
   \<Rightarrow> js_error + ((string \<times> string) list, 'd, 's, 'd reason, 'd AxiosResponse) promise" where
  "updateColumnDescription =
   (\<lambda>description columnIndex tableData h.
     case at_index (columns (tables h tableData)) columnIndex of
       None \<Rightarrow> Inl TypeError
     | Some column \<Rightarrow>
         let columnName = name (cols h column)
         in Inr (axios_put (API_PATH @ ''/put_column_description'')
              [(''description'', description),
               (''column_name'', columnName),
               (''key'', key (tables h tableData)),
               (''source'', ''user'')]))"

definition getLastIndexed ::
  "('b, LastIndexedAPI, 's, LastIndexedAPI reason, string) promise" where
  "getLastIndexed =
     promise_then (axios_get (API_PATH @ ''/get_last_indexed''))
       (\<lambda>response s. (Resolved (timestamp (AxiosResponse.data response)), s))"

text \<open>
  The \<open>.catch\<close> follows the \<open>.then\<close>, so it also receives what the first handler throws
  (reading \<open>previewData\<close> of a nullish body); such an exception has no \<open>response\<close>. The
  condition \<open>response && response.data && response.data.previewData\<close> tests each of the
  three as JavaScript tests a condition.
\<close>

definition getPreviewData ::
  "'q \<Rightarrow> ('q, ('pd, 'z) PreviewDataAPI_scheme js_value, 's,
          'pd PreviewResult, 'pd PreviewResult) promise" where
  "getPreviewData =
   (\<lambda>queryParams.
     promise_catch
       (promise_then
          (axios \<lparr>url = ''/api/preview/v0/'', method = POST,
                  AxiosRequestConfig.data = Some queryParams\<rparr>)
          (\<lambda>response s.
             (if nullish (AxiosResponse.data response)
              then Rejected (Thrown TypeError)
              else Resolved \<lparr>PreviewResult.data =
                                Payload (read_previewData (AxiosResponse.data response)),
                              PreviewResult.status = Some (AxiosResponse.status response)\<rparr>, s)))
       (\<lambda>e s.
          let response = (case e of AxiosErr err \<Rightarrow> AxiosError.response err | Thrown x \<Rightarrow> None);
              data = (case response of
                        Some r \<Rightarrow>
                          if truthy (AxiosResponse.data r)
                             \<and> truthy (read_previewData (AxiosResponse.data r))
                          then Payload (read_previewData (AxiosResponse.data r))
                          else EmptyObject
                      | None \<Rightarrow> EmptyObject);
              status = (case response of Some r \<Rightarrow> Some (AxiosResponse.status r) | None \<Rightarrow> None)
          in (Rejected \<lparr>PreviewResult.data = data, PreviewResult.status = status\<rparr>, s)))"

text \<open>
  What a function that may throw before it returns has sent by the time it returns:
  nothing when it threw, the request of the promise it returned otherwise.
\<close>

definition requests_sent :: "js_error + ('b, 'd, 's, 'e, 'a) promise \<Rightarrow> 'b AxiosRequestConfig list" where
  "requests_sent r = (case r of Inl e \<Rightarrow> [] | Inr p \<Rightarrow> inflight p)"

subsection \<open>Sample inputs\<close>

text \<open>
  Concrete values at which the theorems below are instantiated: a heap with one table of
  two columns, stand-ins for the helpers, and servers that always fail or always answer.
\<close>

definition sample_heap :: "(unit, unit) heap" where
  "sample_heap =
     \<lparr>tables = (\<lambda>r. \<lparr>key = ''db.orders'', columns = [0, 1], TableMetadata.description = ''old''\<rparr>),
      cols = (\<lambda>r. \<lparr>name = (if r = 0 then ''id'' else ''total''), Column.description = ''none''\<rparr>)\<rparr>"

definition sample_query :: "string \<Rightarrow> string option \<Rightarrow> string option \<Rightarrow> string" where
  "sample_query k i s = ''key='' @ k"

definition offline ::
  "'b AxiosRequestConfig list \<Rightarrow> 'b AxiosRequestConfig \<Rightarrow> 'd AxiosError + 'd AxiosResponse" where
  "offline sent r = Inl \<lparr>message = ''Network Error'', response = None\<rparr>"

definition described :: "unit AxiosRequestConfig list \<Rightarrow> unit AxiosRequestConfig
    \<Rightarrow> DescriptionAPI AxiosError + DescriptionAPI AxiosResponse" where
  "described sent r = Inr \<lparr>AxiosResponse.data = \<lparr>DescriptionAPI.description = ''new'', msg = ''Success''\<rparr>,
                      AxiosResponse.status = 200\<rparr>"

definition user_found :: "'b AxiosRequestConfig list \<Rightarrow> 'b AxiosRequestConfig
    \<Rightarrow> string UserAPI AxiosError + string UserAPI AxiosResponse" where
  "user_found sent r = Inr \<lparr>AxiosResponse.data = \<lparr>user = ''alice''\<rparr>, AxiosResponse.status = 200\<rparr>"

definition table_found :: "unit AxiosRequestConfig list \<Rightarrow> unit AxiosRequestConfig \<Rightarrow>
    (string, string) TableData TableDataAPI AxiosError + (string, string) TableData TableDataAPI AxiosResponse" where
  "table_found sent r =
     Inr \<lparr>AxiosResponse.data =
            \<lparr>tableData = \<lparr>TableData.owners = [''ann''], TableData.tags = [''pii'']\<rparr>,
             msg = ''Success''\<rparr>,
          AxiosResponse.status = 200\<rparr>"

definition dashboards_found :: "unit AxiosRequestConfig list \<Rightarrow> unit AxiosRequestConfig \<Rightarrow>
    string RelatedDashboardDataAPI AxiosError + string RelatedDashboardDataAPI AxiosResponse" where
  "dashboards_found sent r =
     Inr \<lparr>AxiosResponse.data = \<lparr>dashboards = [''sales'']\<rparr>, AxiosResponse.status = 200\<rparr>"

definition preview_failed :: "string AxiosRequestConfig list \<Rightarrow> string AxiosRequestConfig
    \<Rightarrow> (string \<times> string) list PreviewDataAPI js_value AxiosError
      + (string \<times> string) list PreviewDataAPI js_value AxiosResponse" where
  "preview_failed sent r =
     Inl \<lparr>message = ''Request failed'',
          response = Some \<lparr>AxiosResponse.data =
                             JsObject \<lparr>previewData = JsObject [(''error_text'', ''timed out'')]\<rparr>,
                           AxiosResponse.status = 500\<rparr>\<rparr>"

definition preview_failed_zero :: "string AxiosRequestConfig list \<Rightarrow> string AxiosRequestConfig
    \<Rightarrow> (string \<times> string) list PreviewDataAPI js_value AxiosError
      + (string \<times> string) list PreviewDataAPI js_value AxiosResponse" where
  "preview_failed_zero sent r =
     Inl \<lparr>message = ''Request failed'',
          response = Some \<lparr>AxiosResponse.data = JsObject \<lparr>previewData = JsNumber 0\<rparr>,
                           AxiosResponse.status = 500\<rparr>\<rparr>"

definition sample_owner_update :: "UpdateOwnerPayload \<Rightarrow> string \<Rightarrow> string AxiosRequestConfig" where
  "sample_owner_update item k =
     \<lparr>url = ''/api/metadata/v0/update_table_owner'', method = PUT,
      AxiosRequestConfig.data = Some (UpdateOwnerPayload.id item)\<rparr>"

section \<open>Properties\<close>

subsection \<open>How promises run\<close>

lemma run_axios:
  "run srv (axios c) sent s =
     ([c], (case srv sent c of Inl e \<Rightarrow> Inl (AxiosErr e) | Inr r \<Rightarrow> Inr r), s)"
  by (simp add: axios_def split: sum.splits)

lemma run_then:
  "run srv (promise_then p f) sent s =
     (case run srv p sent s of
        (t, Inl e, s') \<Rightarrow> (t, Inl e, s')
      | (t, Inr a, s') \<Rightarrow> (case f a s' of (p', s'') \<Rightarrow>
                             case run srv p' (sent @ t) s'' of (t', x, s3) \<Rightarrow> (t @ t', x, s3)))"
proof (induction p arbitrary: sent s)
  case (Resolved a)
  show ?case by (simp split: prod.splits)
next
  case (Rejected e)
  show ?case by simp
next
  case (Deferred j)
  obtain p' s' where js: "j s = (p', s')" by (cases "j s")
  have "p' \<in> Basic_BNFs.fsts (j s)" by (simp add: js)
  then have "run srv (promise_then p' f) sent s' =
     (case run srv p' sent s' of
        (t, Inl e, s') \<Rightarrow> (t, Inl e, s')
      | (t, Inr a, s') \<Rightarrow> (case f a s' of (p', s'') \<Rightarrow>
                             case run srv p' (sent @ t) s'' of (t', x, s3) \<Rightarrow> (t @ t', x, s3)))"
    using Deferred.IH [of "j s" p' sent s'] by blast
  then show ?case by (simp add: js)
next
  case (Pending r k)
  obtain p' s' where ks: "k (srv sent r) s = (p', s')" by (cases "k (srv sent r) s")
  have "p' \<in> Basic_BNFs.fsts (k (srv sent r) s)" by (simp add: ks)
  then have "run srv (promise_then p' f) (sent @ [r]) s' =
     (case run srv p' (sent @ [r]) s' of
        (t, Inl e, s') \<Rightarrow> (t, Inl e, s')
      | (t, Inr a, s') \<Rightarrow> (case f a s' of (p', s'') \<Rightarrow>
                             case run srv p' ((sent @ [r]) @ t) s'' of (t', x, s3) \<Rightarrow> (t @ t', x, s3)))"
    using Pending.IH [of "k (srv sent r)" "k (srv sent r) s" p' "sent @ [r]" s'] by blast
  then show ?case by (simp add: ks split: prod.splits sum.splits)
qed

lemma run_catch:
  "run srv (promise_catch p h) sent s =
     (case run srv p sent s of
        (t, Inr a, s') \<Rightarrow> (t, Inr a, s')
      | (t, Inl e, s') \<Rightarrow> (case h e s' of (p', s'') \<Rightarrow>
                             case run srv p' (sent @ t) s'' of (t', x, s3) \<Rightarrow> (t @ t', x, s3)))"
proof (induction p arbitrary: sent s)
  case (Resolved a)
  show ?case by simp
next
  case (Rejected e)
  show ?case by (simp split: prod.splits)
next
  case (Deferred j)
  obtain p' s' where js: "j s = (p', s')" by (cases "j s")
  have "p' \<in> Basic_BNFs.fsts (j s)" by (simp add: js)
  then have "run srv (promise_catch p' h) sent s' =
     (case run srv p' sent s' of
        (t, Inr a, s') \<Rightarrow> (t, Inr a, s')
      | (t, Inl e, s') \<Rightarrow> (case h e s' of (p', s'') \<Rightarrow>
                             case run srv p' (sent @ t) s'' of (t', x, s3) \<Rightarrow> (t @ t', x, s3)))"
    using Deferred.IH [of "j s" p' sent s'] by blast
  then show ?case by (simp add: js)
next
  case (Pending r k)
  obtain p' s' where ks: "k (srv sent r) s = (p', s')" by (cases "k (srv sent r) s")
  have "p' \<in> Basic_BNFs.fsts (k (srv sent r) s)" by (simp add: ks)
  then have "run srv (promise_catch p' h) (sent @ [r]) s' =
     (case run srv p' (sent @ [r]) s' of
        (t, Inr a, s') \<Rightarrow> (t, Inr a, s')
      | (t, Inl e, s') \<Rightarrow> (case h e s' of (p', s'') \<Rightarrow>
                             case run srv p' ((sent @ [r]) @ t) s'' of (t', x, s3) \<Rightarrow> (t @ t', x, s3)))"
    using Pending.IH [of "k (srv sent r)" "k (srv sent r) s" p' "sent @ [r]" s'] by blast
  then show ?case by (simp add: ks split: prod.splits sum.splits)
qed

lemma run_map:
  "run srv (promise_map g p) sent s =
     (case run srv p sent s of (t, x, s') \<Rightarrow> (t, map_sum (\<lambda>e. e) g x, s'))"
proof (induction p arbitrary: sent s)
  case (Resolved a)
  show ?case by simp
next
  case (Rejected e)
  show ?case by simp
next
  case (Deferred j)
  obtain p' s' where js: "j s = (p', s')" by (cases "j s")
  have "p' \<in> Basic_BNFs.fsts (j s)" by (simp add: js)
  then have "run srv (promise_map g p') sent s' =
      (case run srv p' sent s' of (t, x, s') \<Rightarrow> (t, map_sum (\<lambda>e. e) g x, s'))"
    using Deferred.IH [of "j s" p' sent s'] by blast
  then show ?case by (simp add: js)
next
  case (Pending r k)
  obtain p' s' where ks: "k (srv sent r) s = (p', s')" by (cases "k (srv sent r) s")
  have "p' \<in> Basic_BNFs.fsts (k (srv sent r) s)" by (simp add: ks)
  then have "run srv (promise_map g p') (sent @ [r]) s' =
      (case run srv p' (sent @ [r]) s' of (t, x, s') \<Rightarrow> (t, map_sum (\<lambda>e. e) g x, s'))"
    using Pending.IH [of "k (srv sent r)" "k (srv sent r) s" p' "sent @ [r]" s'] by blast
  then show ?case by (simp add: ks split: prod.splits)
qed

lemma inflight_promise_then: "inflight (promise_then p f) = inflight p"
  by (cases p) simp_all

lemma inflight_promise_catch: "inflight (promise_catch p f) = inflight p"
  by (cases p) simp_all

lemma inflight_promise_map: "inflight (promise_map g p) = inflight p"
  by (cases p) simp_all

lemma inflight_axios: "inflight (axios c) = [c]"
  by (simp add: axios_def)

subsection \<open>What each function does when run\<close>

lemma fold_push: "fold (\<lambda>x acc. acc @ [f x]) xs acc0 = acc0 @ map f xs"
  by (induction xs arbitrary: acc0) simp_all

lemma generateOwnerUpdateRequests_map:
  "generateOwnerUpdateRequests c n sh ua td h =
     map (\<lambda>item.
        promise_then
          (promise_then (axios (c item (key (tables h td))))
             (\<lambda>response s.
                (axios_get (''/api/metadata/v0/user?user_id='' @ UpdateOwnerPayload.id item), s)))
          (\<lambda>response s.
             (if sh (user (AxiosResponse.data response))
              then promise_map Some (axios_post ''/api/mail/v0/notification'' (n item td h))
              else Resolved None, s))) ua"
  by (simp add: generateOwnerUpdateRequests_def Let_def fold_push)

lemma run_owner_chain:
  assumes "i < length ua"
  shows "run srv (generateOwnerUpdateRequests c n sh ua td h ! i) [] s =
     (let item = ua ! i;
          upd = c item (key (tables h td));
          get = \<lparr>url = ''/api/metadata/v0/user?user_id='' @ UpdateOwnerPayload.id item,
                 method = GET, AxiosRequestConfig.data = None\<rparr>;
          post = \<lparr>url = ''/api/mail/v0/notification'', method = POST,
                  AxiosRequestConfig.data = Some (n item td h)\<rparr>
      in case srv [] upd of
           Inl e \<Rightarrow> ([upd], Inl (AxiosErr e), s)
         | Inr r \<Rightarrow>
             (case srv [upd] get of
                Inl e \<Rightarrow> ([upd, get], Inl (AxiosErr e), s)
              | Inr resp \<Rightarrow>
                  if sh (user (AxiosResponse.data resp))
                  then (case srv [upd, get] post of
                          Inl e \<Rightarrow> ([upd, get, post], Inl (AxiosErr e), s)
                        | Inr r' \<Rightarrow> ([upd, get, post], Inr (Some r'), s))
                  else ([upd, get], Inr None, s)))"
  using assms
  by (simp add: generateOwnerUpdateRequests_map run_then run_map run_axios axios_get_def
        axios_post_def Let_def split: sum.splits)

lemma owner_chain_rejects_with_failed_call:
  assumes "i < length ua"
    and "k < length (fst (run srv (generateOwnerUpdateRequests c n sh ua td h ! i) [] s))"
    and "srv (take k (fst (run srv (generateOwnerUpdateRequests c n sh ua td h ! i) [] s)))
           (fst (run srv (generateOwnerUpdateRequests c n sh ua td h ! i) [] s) ! k) = Inl e"
  shows "fst (snd (run srv (generateOwnerUpdateRequests c n sh ua td h ! i) [] s)) = Inl (AxiosErr e)"
  using assms(2,3)
  by (auto simp add: run_owner_chain [OF assms(1)] Let_def less_Suc_eq numeral_2_eq_2
        numeral_3_eq_3 split: sum.splits if_splits)


lemma owner_requests_state:
  "map (\<lambda>p. snd (snd (run srv p [] s))) (generateOwnerUpdateRequests c n sh ua td h) =
     map (\<lambda>item. s) ua"
  by (simp add: generateOwnerUpdateRequests_map run_then run_map run_axios axios_get_def
        axios_post_def split: sum.splits)


lemma run_getTableDescription:
  "run srv (getTableDescription g td h) [] h' =
     (let req = \<lparr>url = API_PATH @ ''/get_table_description?'' @ g (key (tables h td)) None None,
                 method = GET, AxiosRequestConfig.data = None\<rparr>
      in case srv [] req of
           Inl e \<Rightarrow> ([req], Inl (AxiosErr e), h')
         | Inr resp \<Rightarrow>
             ([req], Inr td,
              h'\<lparr>tables := (tables h')(td := (tables h' td)
                   \<lparr>TableMetadata.description :=
                      DescriptionAPI.description (AxiosResponse.data resp)\<rparr>)\<rparr>))"
  by (simp add: getTableDescription_def run_then run_axios axios_get_def Let_def
        split: sum.splits)

lemma run_updateTableDescription:
  "run srv (updateTableDescription d td h) [] s =
     (let req = \<lparr>url = API_PATH @ ''/put_table_description'', method = PUT,
                 AxiosRequestConfig.data =
                   Some [(''description'', d), (''key'', key (tables h td)), (''source'', ''user'')]\<rparr>
      in case srv [] req of
           Inl e \<Rightarrow> ([req], Inl (AxiosErr e), s)
         | Inr resp \<Rightarrow> ([req], Inr resp, s))"
  by (simp add: updateTableDescription_def run_axios axios_put_def Let_def split: sum.splits)

lemma run_getTableOwners:
  "run srv (getTableOwners g ow tableKey) [] s =
     (let req = \<lparr>url = API_PATH @ ''/table?'' @ g tableKey None None,
                 method = GET, AxiosRequestConfig.data = None\<rparr>
      in case srv [] req of
           Inl e \<Rightarrow> ([req], Inl (AxiosErr e), s)
         | Inr resp \<Rightarrow> ([req], Inr (ow (AxiosResponse.data resp)), s))"
  by (simp add: getTableOwners_def run_then run_axios axios_get_def Let_def split: sum.splits)

lemma run_getLastIndexed:
  "run srv getLastIndexed [] s =
     (let req = \<lparr>url = API_PATH @ ''/get_last_indexed'',
                 method = GET, AxiosRequestConfig.data = None\<rparr>
      in case srv [] req of
           Inl e \<Rightarrow> ([req], Inl (AxiosErr e), s)
         | Inr resp \<Rightarrow> ([req], Inr (timestamp (AxiosResponse.data resp)), s))"
  by (simp add: getLastIndexed_def run_then run_axios axios_get_def Let_def split: sum.splits)

lemma run_getPreviewData_trace:
  "fst (run srv (getPreviewData q) [] s) =
     [\<lparr>url = ''/api/preview/v0/'', method = POST, AxiosRequestConfig.data = Some q\<rparr>]
   \<and> snd (snd (run srv (getPreviewData q) [] s)) = s"
  by (simp add: getPreviewData_def run_catch run_then run_axios Let_def
        split: sum.splits option.splits)

lemma run_all_getTableData:
  "run_all pf srvT srvD (getTableData slug qp mk ow tableKey index source) s =
     (let treq = \<lparr>url = API_PATH @ ''/table?'' @ qp tableKey index source,
                  method = GET, AxiosRequestConfig.data = None\<rparr>;
          dreq = \<lparr>url = API_PATH @ ''/table/'' @ slug tableKey @ ''/dashboards'',
                  method = GET, AxiosRequestConfig.data = None\<rparr>
      in ([treq, dreq],
          (case srvT [] treq of
             Inl e1 \<Rightarrow>
               (case srvD [] dreq of
                  Inl e2 \<Rightarrow> Inl (if pf then Inl (AxiosErr e1) else Inr (AxiosErr e2))
                | Inr dr \<Rightarrow> Inl (Inl (AxiosErr e1)))
           | Inr tr \<Rightarrow>
               (case srvD [] dreq of
                  Inl e2 \<Rightarrow> Inl (Inr (AxiosErr e2))
                | Inr dr \<Rightarrow>
                    Inr \<lparr>TableDataResult.data = mk (AxiosResponse.data tr) (AxiosResponse.data dr),
                         TableDataResult.owners = ow (AxiosResponse.data tr),
                         TableDataResult.tags = TableData.tags (tableData (AxiosResponse.data tr)),
                         statusCode = AxiosResponse.status tr\<rparr>)),
          s))"
  by (simp add: getTableData_def Promise_all_def run_axios axios_get_def Let_def
        split: sum.splits)

lemma inflight_all_getTableData:
  "inflight_all (getTableData slug qp mk ow tableKey index source) =
     [\<lparr>url = API_PATH @ ''/table?'' @ qp tableKey index source,
       method = GET, AxiosRequestConfig.data = None\<rparr>,
      \<lparr>url = API_PATH @ ''/table/'' @ slug tableKey @ ''/dashboards'',
       method = GET, AxiosRequestConfig.data = None\<rparr>]"
  by (simp add: getTableData_def Promise_all_def axios_get_def inflight_axios Let_def)

subsection \<open>Preview data: the failure path\<close>

text \<open>
  Claim C1. When the preview request fails, \<open>getPreviewData\<close> does not let the transport
  error through: the promise is rejected with an object built by the \<open>catch\<close> handler.
  Its \<open>data\<close> is the \<open>previewData\<close> of the error's response when one is there: the error
  has a response, the body of the response is an object, and the \<open>previewData\<close> of that
  object passes the handler's test, as every object does and \<open>undefined\<close>, \<open>null\<close>,
  \<open>false\<close>, \<open>0\<close> and the empty string do not. In every other case \<open>data\<close> is the empty
  object. Its \<open>status\<close> is the status of the error's response, and \<open>null\<close> when the error
  has no response.
\<close>

theorem getPreviewData_failure:
  assumes "srv [] \<lparr>url = ''/api/preview/v0/'', method = POST, AxiosRequestConfig.data = Some q\<rparr> = Inl err"
  shows "\<exists>res. fst (snd (run srv (getPreviewData q) [] s)) = Inl res
     \<and> PreviewResult.data res =
         (case AxiosError.response err of
            None \<Rightarrow> EmptyObject
          | Some r \<Rightarrow>
              (case AxiosResponse.data r of
                 JsObject body \<Rightarrow>
                   (case previewData body of
                      JsObject payload \<Rightarrow> Payload (JsObject payload)
                    | v \<Rightarrow> if truthy v then Payload v else EmptyObject)
               | v \<Rightarrow> EmptyObject))
     \<and> PreviewResult.status res =
         (case AxiosError.response err of
            None \<Rightarrow> None
          | Some r \<Rightarrow> Some (AxiosResponse.status r))"
  using assms
  by (simp add: getPreviewData_def run_catch run_then run_axios Let_def
           split: option.splits js_value.splits)

theorem getPreviewData_failure_witness:
  "preview_failed [] \<lparr>url = ''/api/preview/v0/'', method = POST,
                       AxiosRequestConfig.data = Some ''select''\<rparr>
     = Inl \<lparr>message = ''Request failed'',
            response = Some \<lparr>AxiosResponse.data =
                               JsObject \<lparr>previewData = JsObject [(''error_text'', ''timed out'')]\<rparr>,
                             AxiosResponse.status = 500\<rparr>\<rparr>
   \<and> fst (snd (run preview_failed (getPreviewData ''select'') [] ()))
     = Inl \<lparr>PreviewResult.data = Payload (JsObject [(''error_text'', ''timed out'')]),
            PreviewResult.status = Some 500\<rparr>
   \<and> preview_failed_zero [] \<lparr>url = ''/api/preview/v0/'', method = POST,
                            AxiosRequestConfig.data = Some ''select''\<rparr>
     = Inl \<lparr>message = ''Request failed'',
            response = Some \<lparr>AxiosResponse.data = JsObject \<lparr>previewData = JsNumber 0\<rparr>,
                             AxiosResponse.status = 500\<rparr>\<rparr>
   \<and> fst (snd (run preview_failed_zero (getPreviewData ''select'') [] ()))
     = Inl \<lparr>PreviewResult.data = EmptyObject, PreviewResult.status = Some 500\<rparr>"
  using getPreviewData_failure [of preview_failed "''select''"
      "\<lparr>message = ''Request failed'',
        response = Some \<lparr>AxiosResponse.data =
                           JsObject \<lparr>previewData = JsObject [(''error_text'', ''timed out'')]\<rparr>,
                         AxiosResponse.status = 500\<rparr>\<rparr>" "()"]
    getPreviewData_failure [of preview_failed_zero "''select''"
      "\<lparr>message = ''Request failed'',
        response = Some \<lparr>AxiosResponse.data = JsObject \<lparr>previewData = JsNumber 0\<rparr>,
                         AxiosResponse.status = 500\<rparr>\<rparr>" "()"]
  by (auto simp add: preview_failed_def preview_failed_zero_def)

subsection \<open>The owner-update chain: order of the calls\<close>

text \<open>
  Claim C2. Every element of \<open>updateArray\<close> gets one chained request. Run against any
  server, the chain sends the owner update first; it sends the user fetch for the
  element's id exactly when the update succeeded, and after it; it sends the
  notification exactly when the user fetch succeeded and \<open>shouldSendNotification\<close> holds
  for the fetched user, and after it. No other request is sent and no other order occurs.
\<close>

theorem owner_chain_order:
  assumes "i < length ua"
  shows "fst (run srv (generateOwnerUpdateRequests c n sh ua td h ! i) [] s) =
     (let item = ua ! i;
          upd = c item (key (tables h td));
          get = \<lparr>url = ''/api/metadata/v0/user?user_id='' @ UpdateOwnerPayload.id item,
                 method = GET, AxiosRequestConfig.data = None\<rparr>;
          post = \<lparr>url = ''/api/mail/v0/notification'', method = POST,
                  AxiosRequestConfig.data = Some (n item td h)\<rparr>
      in upd # (case srv [] upd of
                  Inl e \<Rightarrow> []
                | Inr r \<Rightarrow>
                    get # (case srv [upd] get of
                             Inl e \<Rightarrow> []
                           | Inr resp \<Rightarrow>
                               if sh (user (AxiosResponse.data resp)) then [post] else [])))"
  by (simp add: run_owner_chain [OF assms] Let_def split: sum.splits)

theorem owner_chain_order_witness:
  "(0::nat) < length [\<lparr>UpdateOwnerPayload.id = ''alice''\<rparr>]
   \<and> fst (run user_found
        (generateOwnerUpdateRequests sample_owner_update (\<lambda>item td h. ''notify'') (\<lambda>u. True)
           [\<lparr>UpdateOwnerPayload.id = ''alice''\<rparr>] 0 sample_heap ! 0) [] ()) =
       [\<lparr>url = ''/api/metadata/v0/update_table_owner'', method = PUT,
         AxiosRequestConfig.data = Some ''alice''\<rparr>,
        \<lparr>url = ''/api/metadata/v0/user?user_id=alice'', method = GET,
         AxiosRequestConfig.data = None\<rparr>,
        \<lparr>url = ''/api/mail/v0/notification'', method = POST,
         AxiosRequestConfig.data = Some ''notify''\<rparr>]"
  using owner_chain_order [where i = 0 and ua = "[\<lparr>UpdateOwnerPayload.id = ''alice''\<rparr>]"
      and srv = user_found and c = sample_owner_update and n = "\<lambda>item td h. ''notify''"
      and sh = "\<lambda>u. True" and td = 0 and h = sample_heap and s = "()"]
  by (simp add: Let_def user_found_def sample_owner_update_def)

subsection \<open>Table data: two requests joined\<close>

text \<open>
  Claim C3. \<open>getTableData\<close> has both requests in flight when it returns (neither waits
  for the other), and the requests sent are these two whatever the outcomes. When both
  succeed the result is the view-model: \<open>data\<close> merges the table body with the
  dashboards body, \<open>owners\<close> and \<open>tags\<close> come from the table body and \<open>statusCode\<close> is the
  status of the table response. The result is a rejection exactly when one of the two
  requests fails.
\<close>

theorem getTableData_parallel_join:
  "(let treq = \<lparr>url = API_PATH @ ''/table?'' @ qp tableKey index source,
                 method = GET, AxiosRequestConfig.data = None\<rparr>;
        dreq = \<lparr>url = API_PATH @ ''/table/'' @ slug tableKey @ ''/dashboards'',
                 method = GET, AxiosRequestConfig.data = None\<rparr>;
        p = getTableData slug qp mk ow tableKey index source;
        result = fst (snd (run_all pf srvT srvD p s))
    in inflight_all p = [treq, dreq]
     \<and> fst (run_all pf srvT srvD p s) = [treq, dreq]
     \<and> (srvT [] treq = Inr tr \<and> srvD [] dreq = Inr dr \<longrightarrow>
          result =
            Inr \<lparr>TableDataResult.data = mk (AxiosResponse.data tr) (AxiosResponse.data dr),
                 TableDataResult.owners = ow (AxiosResponse.data tr),
                 TableDataResult.tags = TableData.tags (tableData (AxiosResponse.data tr)),
                 statusCode = AxiosResponse.status tr\<rparr>)
     \<and> (isl result = (isl (srvT [] treq) \<or> isl (srvD [] dreq))))"
  by (simp add: run_all_getTableData inflight_all_getTableData Let_def split: sum.splits)

theorem getTableData_parallel_join_witness:
  "table_found [] \<lparr>url = API_PATH @ ''/table?'' @ sample_query ''db.orders'' None None,
                method = GET, AxiosRequestConfig.data = None\<rparr>
     = Inr \<lparr>AxiosResponse.data =
              \<lparr>tableData = \<lparr>TableData.owners = [''ann''], TableData.tags = [''pii'']\<rparr>,
               msg = ''Success''\<rparr>,
            AxiosResponse.status = 200\<rparr>
   \<and> dashboards_found [] \<lparr>url = API_PATH @ ''/table/'' @ ''db.orders'' @ ''/dashboards'',
                       method = GET, AxiosRequestConfig.data = None\<rparr>
     = Inr \<lparr>AxiosResponse.data = \<lparr>dashboards = [''sales'']\<rparr>, AxiosResponse.status = 200\<rparr>
   \<and> fst (snd (run_all True table_found dashboards_found
        (getTableData (\<lambda>k. k) sample_query
           (\<lambda>t d. (TableData.owners (tableData t), dashboards d))
           (\<lambda>t. TableData.owners (tableData t)) ''db.orders'' None None) ()))
     = Inr \<lparr>TableDataResult.data = ([''ann''], [''sales'']),
            TableDataResult.owners = [''ann''],
            TableDataResult.tags = [''pii''],
            statusCode = 200\<rparr>"
  using getTableData_parallel_join [where srvT = table_found and srvD = dashboards_found
      and slug = "\<lambda>k. k" and qp = sample_query
      and mk = "\<lambda>t d. (TableData.owners (tableData t), dashboards d)"
      and ow = "\<lambda>t. TableData.owners (tableData t)" and tableKey = "''db.orders''"
      and index = None and source = None and pf = True and s = "()"
      and tr = "\<lparr>AxiosResponse.data =
              \<lparr>tableData = \<lparr>TableData.owners = [''ann''], TableData.tags = [''pii'']\<rparr>,
               msg = ''Success''\<rparr>,
            AxiosResponse.status = 200\<rparr>"
      and dr = "\<lparr>AxiosResponse.data = \<lparr>dashboards = [''sales'']\<rparr>, AxiosResponse.status = 200\<rparr>"]
  by (simp add: table_found_def dashboards_found_def Let_def)

subsection \<open>Number of network calls\<close>



subsection \<open>State outside the request\<close>

text \<open>
  Claim C5, as stated, fails: on success \<open>getTableDescription\<close> writes the description
  it fetched into its \<open>tableData\<close> argument.
\<close>

theorem getTableDescription_changes_tableData:
  "snd (snd (run described
       (getTableDescription sample_query 0 sample_heap
          :: (unit, DescriptionAPI, (unit, unit) heap, DescriptionAPI reason, ref) promise) []
       sample_heap))
     \<noteq> sample_heap"
  by (simp add: run_getTableDescription Let_def described_def sample_heap_def fun_upd_idem_iff)

text \<open>
  Claim C5, amended. Every exported function other than \<open>getTableDescription\<close> and
  \<open>getColumnDescription\<close> leaves the state it runs in as it found it, whatever the server
  answers. \<open>getTableDescription\<close> and \<open>getColumnDescription\<close> leave it as they found it
  when their request fails; when it succeeds they change the \<open>description\<close> of
  \<open>tableData\<close>, respectively of the column of \<open>tableData\<close> at \<open>columnIndex\<close>, and nothing
  else.
\<close>

theorem state_unchanged_except_description_getters:
  "snd (snd (run_all pf srvT srvD (getTableData slug qp mk ow tableKey index source) s_all)) = s_all
   \<and> snd (snd (run srv_ut (updateTableDescription d_ut td_ut h_ut) [] s_ut)) = s_ut
   \<and> snd (snd (run srv_to (getTableOwners g_to ow_to k_to) [] s_to)) = s_to
   \<and> map (\<lambda>p. snd (snd (run srv_ow p [] s_ow)))
         (generateOwnerUpdateRequests c_ow n_ow sh_ow ua_ow td_ow h_ow) = map (\<lambda>item. s_ow) ua_ow
   \<and> (case updateColumnDescription d_uc i_uc td_uc h_uc of
         Inl e \<Rightarrow> s_uc | Inr p \<Rightarrow> snd (snd (run srv_uc p [] s_uc))) = s_uc
   \<and> snd (snd (run srv_li getLastIndexed [] s_li)) = s_li
   \<and> snd (snd (run srv_pv (getPreviewData q_pv) [] s_pv)) = s_pv
   \<and> (srv_td [] \<lparr>url = API_PATH @ ''/get_table_description?'' @ g_td (key (tables h_td td_td)) None None,
              method = GET, AxiosRequestConfig.data = None\<rparr> = Inl e_td
      \<longrightarrow> snd (snd (run srv_td (getTableDescription g_td td_td h_td) [] h_td')) = h_td')
   \<and> (srv_td [] \<lparr>url = API_PATH @ ''/get_table_description?'' @ g_td (key (tables h_td td_td)) None None,
              method = GET, AxiosRequestConfig.data = None\<rparr> = Inr resp_td
      \<longrightarrow> snd (snd (run srv_td (getTableDescription g_td td_td h_td) [] h_td')) =
            h_td'\<lparr>tables := (tables h_td')(td_td := (tables h_td' td_td)
                 \<lparr>TableMetadata.description :=
                    DescriptionAPI.description (AxiosResponse.data resp_td)\<rparr>)\<rparr>)
   \<and> (srv_cd [] \<lparr>url = API_PATH @ ''/get_column_description?'' @ g_cd (key (tables h_cd td_cd)) None None
                     @ ''&column_name='' @ name (cols h_cd (columns (tables h_cd td_cd) ! nat i_cd)),
              method = GET, AxiosRequestConfig.data = None\<rparr> = Inl e_cd
      \<longrightarrow> (case getColumnDescription g_cd i_cd td_cd h_cd of
             Inl e \<Rightarrow> h_cd' | Inr p \<Rightarrow> snd (snd (run srv_cd p [] h_cd'))) = h_cd')
   \<and> (0 \<le> i_cd \<and> i_cd < int (length (columns (tables h_cd td_cd)))
        \<and> srv_cd [] \<lparr>url = API_PATH @ ''/get_column_description?'' @ g_cd (key (tables h_cd td_cd)) None None
                     @ ''&column_name='' @ name (cols h_cd (columns (tables h_cd td_cd) ! nat i_cd)),
              method = GET, AxiosRequestConfig.data = None\<rparr> = Inr resp_cd
      \<longrightarrow> (case getColumnDescription g_cd i_cd td_cd h_cd of
             Inl e \<Rightarrow> h_cd' | Inr p \<Rightarrow> snd (snd (run srv_cd p [] h_cd'))) =
           (case at_index (columns (tables h_cd' td_cd)) i_cd of
              None \<Rightarrow> h_cd'
            | Some c \<Rightarrow>
                h_cd'\<lparr>cols := (cols h_cd')(c := (cols h_cd' c)
                     \<lparr>Column.description :=
                        DescriptionAPI.description (AxiosResponse.data resp_cd)\<rparr>)\<rparr>))"
proof (intro conjI)
  show "snd (snd (run_all pf srvT srvD (getTableData slug qp mk ow tableKey index source) s_all)) = s_all"
    by (simp add: run_all_getTableData Let_def)
  show "snd (snd (run srv_ut (updateTableDescription d_ut td_ut h_ut) [] s_ut)) = s_ut"
    by (simp add: run_updateTableDescription Let_def split: sum.splits)
  show "snd (snd (run srv_to (getTableOwners g_to ow_to k_to) [] s_to)) = s_to"
    by (simp add: run_getTableOwners Let_def split: sum.splits)
  show "map (\<lambda>p. snd (snd (run srv_ow p [] s_ow)))
         (generateOwnerUpdateRequests c_ow n_ow sh_ow ua_ow td_ow h_ow) = map (\<lambda>item. s_ow) ua_ow"
    by (rule owner_requests_state)
  show "(case updateColumnDescription d_uc i_uc td_uc h_uc of
         Inl e \<Rightarrow> s_uc | Inr p \<Rightarrow> snd (snd (run srv_uc p [] s_uc))) = s_uc"
    by (simp add: updateColumnDescription_def run_axios axios_put_def Let_def
          split: sum.splits option.splits)
  show "snd (snd (run srv_li getLastIndexed [] s_li)) = s_li"
    by (simp add: run_getLastIndexed Let_def split: sum.splits)
  show "snd (snd (run srv_pv (getPreviewData q_pv) [] s_pv)) = s_pv"
    by (simp add: run_getPreviewData_trace)
  show "srv_td [] \<lparr>url = API_PATH @ ''/get_table_description?'' @ g_td (key (tables h_td td_td)) None None,
              method = GET, AxiosRequestConfig.data = None\<rparr> = Inl e_td
      \<longrightarrow> snd (snd (run srv_td (getTableDescription g_td td_td h_td) [] h_td')) = h_td'"
    by (simp add: run_getTableDescription Let_def)
  show "srv_td [] \<lparr>url = API_PATH @ ''/get_table_description?'' @ g_td (key (tables h_td td_td)) None None,
              method = GET, AxiosRequestConfig.data = None\<rparr> = Inr resp_td
      \<longrightarrow> snd (snd (run srv_td (getTableDescription g_td td_td h_td) [] h_td')) =
            h_td'\<lparr>tables := (tables h_td')(td_td := (tables h_td' td_td)
                 \<lparr>TableMetadata.description :=
                    DescriptionAPI.description (AxiosResponse.data resp_td)\<rparr>)\<rparr>"
    by (simp add: run_getTableDescription Let_def)
  show "srv_cd [] \<lparr>url = API_PATH @ ''/get_column_description?'' @ g_cd (key (tables h_cd td_cd)) None None
                     @ ''&column_name='' @ name (cols h_cd (columns (tables h_cd td_cd) ! nat i_cd)),
              method = GET, AxiosRequestConfig.data = None\<rparr> = Inl e_cd
      \<longrightarrow> (case getColumnDescription g_cd i_cd td_cd h_cd of
             Inl e \<Rightarrow> h_cd' | Inr p \<Rightarrow> snd (snd (run srv_cd p [] h_cd'))) = h_cd'"
    by (simp add: getColumnDescription_def at_index_def run_then run_axios axios_get_def Let_def)
  show "0 \<le> i_cd \<and> i_cd < int (length (columns (tables h_cd td_cd)))
        \<and> srv_cd [] \<lparr>url = API_PATH @ ''/get_column_description?'' @ g_cd (key (tables h_cd td_cd)) None None
                     @ ''&column_name='' @ name (cols h_cd (columns (tables h_cd td_cd) ! nat i_cd)),
              method = GET, AxiosRequestConfig.data = None\<rparr> = Inr resp_cd
      \<longrightarrow> (case getColumnDescription g_cd i_cd td_cd h_cd of
             Inl e \<Rightarrow> h_cd' | Inr p \<Rightarrow> snd (snd (run srv_cd p [] h_cd'))) =
           (case at_index (columns (tables h_cd' td_cd)) i_cd of
              None \<Rightarrow> h_cd'
            | Some c \<Rightarrow>
                h_cd'\<lparr>cols := (cols h_cd')(c := (cols h_cd' c)
                     \<lparr>Column.description :=
                        DescriptionAPI.description (AxiosResponse.data resp_cd)\<rparr>)\<rparr>)"
    by (simp add: getColumnDescription_def at_index_def run_then run_axios axios_get_def Let_def)
qed

theorem state_unchanged_except_description_getters_witness:
  "offline [] \<lparr>url = API_PATH @ ''/get_table_description?'' @ sample_query ''db.orders'' None None,
            method = GET, AxiosRequestConfig.data = None\<rparr>
     = Inl \<lparr>message = ''Network Error'', response = None\<rparr>
   \<and> snd (snd (run offline (getTableDescription sample_query 0 sample_heap) [] sample_heap)) = sample_heap
   \<and> described [] \<lparr>url = API_PATH @ ''/get_table_description?'' @ sample_query ''db.orders'' None None,
                method = GET, AxiosRequestConfig.data = None\<rparr>
     = Inr \<lparr>AxiosResponse.data = \<lparr>DescriptionAPI.description = ''new'', msg = ''Success''\<rparr>,
            AxiosResponse.status = 200\<rparr>
   \<and> snd (snd (run described (getTableDescription sample_query 0 sample_heap) [] sample_heap)) =
       sample_heap\<lparr>tables := (tables sample_heap)(0 :=
         \<lparr>key = ''db.orders'', columns = [0, 1], TableMetadata.description = ''new''\<rparr>)\<rparr>
   \<and> offline [] \<lparr>url = API_PATH @ ''/get_column_description?'' @ sample_query ''db.orders'' None None
                     @ ''&column_name='' @ ''total'',
              method = GET, AxiosRequestConfig.data = None\<rparr>
     = Inl \<lparr>message = ''Network Error'', response = None\<rparr>
   \<and> (case getColumnDescription sample_query 1 0 sample_heap of
         Inl e \<Rightarrow> sample_heap | Inr p \<Rightarrow> snd (snd (run offline p [] sample_heap))) = sample_heap
   \<and> (0::int) \<le> 1 \<and> 1 < int (length (columns (tables sample_heap 0)))
   \<and> described [] \<lparr>url = API_PATH @ ''/get_column_description?'' @ sample_query ''db.orders'' None None
                      @ ''&column_name='' @ ''total'',
                method = GET, AxiosRequestConfig.data = None\<rparr>
     = Inr \<lparr>AxiosResponse.data = \<lparr>DescriptionAPI.description = ''new'', msg = ''Success''\<rparr>,
            AxiosResponse.status = 200\<rparr>
   \<and> (case getColumnDescription sample_query 1 0 sample_heap of
         Inl e \<Rightarrow> sample_heap | Inr p \<Rightarrow> snd (snd (run described p [] sample_heap))) =
       sample_heap\<lparr>cols := (cols sample_heap)(1 :=
         \<lparr>name = ''total'', Column.description = ''new''\<rparr>)\<rparr>"
  using state_unchanged_except_description_getters [where srv_td = offline and g_td = sample_query
      and td_td = 0 and h_td = sample_heap and h_td' = sample_heap
      and e_td = "\<lparr>message = ''Network Error'', response = None\<rparr>"
      and srv_cd = offline and g_cd = sample_query and i_cd = 1
      and td_cd = 0 and h_cd = sample_heap and h_cd' = sample_heap
      and e_cd = "\<lparr>message = ''Network Error'', response = None\<rparr>"]
    state_unchanged_except_description_getters [where srv_td = described and g_td = sample_query
      and td_td = 0 and h_td = sample_heap and h_td' = sample_heap
      and resp_td = "\<lparr>AxiosResponse.data = \<lparr>DescriptionAPI.description = ''new'', msg = ''Success''\<rparr>,
            AxiosResponse.status = 200\<rparr>"
      and srv_cd = described and g_cd = sample_query and i_cd = 1
      and td_cd = 0 and h_cd = sample_heap and h_cd' = sample_heap
      and resp_cd = "\<lparr>AxiosResponse.data = \<lparr>DescriptionAPI.description = ''new'', msg = ''Success''\<rparr>,
            AxiosResponse.status = 200\<rparr>"]
  by (simp add: sample_heap_def sample_query_def described_def offline_def at_index_def
        getColumnDescription_def run_getTableDescription run_then run_axios axios_get_def Let_def)

subsection \<open>Transport errors reach the caller\<close>

text \<open>
  Claim C6. For every exported function other than \<open>getPreviewData\<close>, when a request
  it sent fails, its promise is rejected with the very error axios produced.
  \<open>getTableData\<close> is rejected with the error of the table request or with that of the
  dashboards request; a chain of \<open>generateOwnerUpdateRequests\<close> is rejected with the
  error of whichever of its requests failed.
\<close>

theorem transport_errors_propagate:
  "(isl (srvT [] \<lparr>url = API_PATH @ ''/table?'' @ qp tableKey index source,
                method = GET, AxiosRequestConfig.data = None\<rparr>)
      \<or> isl (srvD [] \<lparr>url = API_PATH @ ''/table/'' @ slug tableKey @ ''/dashboards'',
                   method = GET, AxiosRequestConfig.data = None\<rparr>)
    \<longrightarrow> (\<exists>e. srvT [] \<lparr>url = API_PATH @ ''/table?'' @ qp tableKey index source,
                    method = GET, AxiosRequestConfig.data = None\<rparr> = Inl e
             \<and> fst (snd (run_all pf srvT srvD (getTableData slug qp mk ow tableKey index source) s_all))
                 = Inl (Inl (AxiosErr e)))
        \<or> (\<exists>e. srvD [] \<lparr>url = API_PATH @ ''/table/'' @ slug tableKey @ ''/dashboards'',
                    method = GET, AxiosRequestConfig.data = None\<rparr> = Inl e
             \<and> fst (snd (run_all pf srvT srvD (getTableData slug qp mk ow tableKey index source) s_all))
                 = Inl (Inr (AxiosErr e))))
   \<and> (srv_td [] \<lparr>url = API_PATH @ ''/get_table_description?'' @ g_td (key (tables h_td td_td)) None None,
            method = GET, AxiosRequestConfig.data = None\<rparr> = Inl e_td
      \<longrightarrow> fst (snd (run srv_td (getTableDescription g_td td_td h_td) [] h_td')) = Inl (AxiosErr e_td))
   \<and> (srv_ut [] \<lparr>url = API_PATH @ ''/put_table_description'', method = PUT,
            AxiosRequestConfig.data =
              Some [(''description'', d_ut), (''key'', key (tables h_ut td_ut)), (''source'', ''user'')]\<rparr>
          = Inl e_ut
      \<longrightarrow> fst (snd (run srv_ut (updateTableDescription d_ut td_ut h_ut) [] s_ut)) = Inl (AxiosErr e_ut))
   \<and> (srv_to [] \<lparr>url = API_PATH @ ''/table?'' @ g_to k_to None None,
            method = GET, AxiosRequestConfig.data = None\<rparr> = Inl e_to
      \<longrightarrow> fst (snd (run srv_to (getTableOwners g_to ow_to k_to) [] s_to)) = Inl (AxiosErr e_to))
   \<and> (i_ow < length ua_ow
        \<and> k_ow < length (fst (run srv_ow (generateOwnerUpdateRequests c_ow n_ow sh_ow ua_ow td_ow h_ow ! i_ow) [] s_ow))
        \<and> srv_ow (take k_ow (fst (run srv_ow (generateOwnerUpdateRequests c_ow n_ow sh_ow ua_ow td_ow h_ow ! i_ow) [] s_ow)))
             (fst (run srv_ow (generateOwnerUpdateRequests c_ow n_ow sh_ow ua_ow td_ow h_ow ! i_ow) [] s_ow) ! k_ow)
            = Inl e_ow
      \<longrightarrow> fst (snd (run srv_ow (generateOwnerUpdateRequests c_ow n_ow sh_ow ua_ow td_ow h_ow ! i_ow) [] s_ow))
            = Inl (AxiosErr e_ow))
   \<and> (0 \<le> i_cd \<and> i_cd < int (length (columns (tables h_cd td_cd)))
        \<and> srv_cd [] \<lparr>url = API_PATH @ ''/get_column_description?'' @ g_cd (key (tables h_cd td_cd)) None None
                       @ ''&column_name='' @ name (cols h_cd (columns (tables h_cd td_cd) ! nat i_cd)),
                 method = GET, AxiosRequestConfig.data = None\<rparr> = Inl e_cd
      \<longrightarrow> (\<exists>p. getColumnDescription g_cd i_cd td_cd h_cd = Inr p
             \<and> fst (snd (run srv_cd p [] h_cd')) = Inl (AxiosErr e_cd)))
   \<and> (0 \<le> i_uc \<and> i_uc < int (length (columns (tables h_uc td_uc)))
        \<and> srv_uc [] \<lparr>url = API_PATH @ ''/put_column_description'', method = PUT,
                 AxiosRequestConfig.data =
                   Some [(''description'', d_uc),
                         (''column_name'', name (cols h_uc (columns (tables h_uc td_uc) ! nat i_uc))),
                         (''key'', key (tables h_uc td_uc)),
                         (''source'', ''user'')]\<rparr> = Inl e_uc
      \<longrightarrow> (\<exists>p. updateColumnDescription d_uc i_uc td_uc h_uc = Inr p
             \<and> fst (snd (run srv_uc p [] s_uc)) = Inl (AxiosErr e_uc)))
   \<and> (srv_li [] \<lparr>url = API_PATH @ ''/get_last_indexed'',
            method = GET, AxiosRequestConfig.data = None\<rparr> = Inl e_li
      \<longrightarrow> fst (snd (run srv_li getLastIndexed [] s_li)) = Inl (AxiosErr e_li))"
proof (intro conjI)
  show "isl (srvT [] \<lparr>url = API_PATH @ ''/table?'' @ qp tableKey index source,
                method = GET, AxiosRequestConfig.data = None\<rparr>)
      \<or> isl (srvD [] \<lparr>url = API_PATH @ ''/table/'' @ slug tableKey @ ''/dashboards'',
                   method = GET, AxiosRequestConfig.data = None\<rparr>)
    \<longrightarrow> (\<exists>e. srvT [] \<lparr>url = API_PATH @ ''/table?'' @ qp tableKey index source,
                    method = GET, AxiosRequestConfig.data = None\<rparr> = Inl e
             \<and> fst (snd (run_all pf srvT srvD (getTableData slug qp mk ow tableKey index source) s_all))
                 = Inl (Inl (AxiosErr e)))
        \<or> (\<exists>e. srvD [] \<lparr>url = API_PATH @ ''/table/'' @ slug tableKey @ ''/dashboards'',
                    method = GET, AxiosRequestConfig.data = None\<rparr> = Inl e
             \<and> fst (snd (run_all pf srvT srvD (getTableData slug qp mk ow tableKey index source) s_all))
                 = Inl (Inr (AxiosErr e)))"
    by (simp add: run_all_getTableData Let_def split: sum.splits)
next
  show "srv_td [] \<lparr>url = API_PATH @ ''/get_table_description?'' @ g_td (key (tables h_td td_td)) None None,
            method = GET, AxiosRequestConfig.data = None\<rparr> = Inl e_td
      \<longrightarrow> fst (snd (run srv_td (getTableDescription g_td td_td h_td) [] h_td')) = Inl (AxiosErr e_td)"
    by (simp add: run_getTableDescription Let_def)
next
  show "srv_ut [] \<lparr>url = API_PATH @ ''/put_table_description'', method = PUT,
            AxiosRequestConfig.data =
              Some [(''description'', d_ut), (''key'', key (tables h_ut td_ut)), (''source'', ''user'')]\<rparr>
          = Inl e_ut
      \<longrightarrow> fst (snd (run srv_ut (updateTableDescription d_ut td_ut h_ut) [] s_ut)) = Inl (AxiosErr e_ut)"
    by (simp add: run_updateTableDescription Let_def)
next
  show "srv_to [] \<lparr>url = API_PATH @ ''/table?'' @ g_to k_to None None,
            method = GET, AxiosRequestConfig.data = None\<rparr> = Inl e_to
      \<longrightarrow> fst (snd (run srv_to (getTableOwners g_to ow_to k_to) [] s_to)) = Inl (AxiosErr e_to)"
    by (simp add: run_getTableOwners Let_def)
next
  show "i_ow < length ua_ow
        \<and> k_ow < length (fst (run srv_ow (generateOwnerUpdateRequests c_ow n_ow sh_ow ua_ow td_ow h_ow ! i_ow) [] s_ow))
        \<and> srv_ow (take k_ow (fst (run srv_ow (generateOwnerUpdateRequests c_ow n_ow sh_ow ua_ow td_ow h_ow ! i_ow) [] s_ow)))
             (fst (run srv_ow (generateOwnerUpdateRequests c_ow n_ow sh_ow ua_ow td_ow h_ow ! i_ow) [] s_ow) ! k_ow)
            = Inl e_ow
      \<longrightarrow> fst (snd (run srv_ow (generateOwnerUpdateRequests c_ow n_ow sh_ow ua_ow td_ow h_ow ! i_ow) [] s_ow))
            = Inl (AxiosErr e_ow)"
    using owner_chain_rejects_with_failed_call [of i_ow ua_ow k_ow srv_ow c_ow n_ow sh_ow td_ow h_ow s_ow e_ow] by blast
next
  show "0 \<le> i_cd \<and> i_cd < int (length (columns (tables h_cd td_cd)))
        \<and> srv_cd [] \<lparr>url = API_PATH @ ''/get_column_description?'' @ g_cd (key (tables h_cd td_cd)) None None
                       @ ''&column_name='' @ name (cols h_cd (columns (tables h_cd td_cd) ! nat i_cd)),
                 method = GET, AxiosRequestConfig.data = None\<rparr> = Inl e_cd
      \<longrightarrow> (\<exists>p. getColumnDescription g_cd i_cd td_cd h_cd = Inr p
             \<and> fst (snd (run srv_cd p [] h_cd')) = Inl (AxiosErr e_cd))"
    by (simp add: getColumnDescription_def at_index_def run_then run_axios axios_get_def Let_def)
next
  show "0 \<le> i_uc \<and> i_uc < int (length (columns (tables h_uc td_uc)))
        \<and> srv_uc [] \<lparr>url = API_PATH @ ''/put_column_description'', method = PUT,
                 AxiosRequestConfig.data =
                   Some [(''description'', d_uc),
                         (''column_name'', name (cols h_uc (columns (tables h_uc td_uc) ! nat i_uc))),
                         (''key'', key (tables h_uc td_uc)),
                         (''source'', ''user'')]\<rparr> = Inl e_uc
      \<longrightarrow> (\<exists>p. updateColumnDescription d_uc i_uc td_uc h_uc = Inr p
             \<and> fst (snd (run srv_uc p [] s_uc)) = Inl (AxiosErr e_uc))"
    by (simp add: updateColumnDescription_def at_index_def run_axios axios_put_def Let_def)
next
  show "srv_li [] \<lparr>url = API_PATH @ ''/get_last_indexed'',
            method = GET, AxiosRequestConfig.data = None\<rparr> = Inl e_li
      \<longrightarrow> fst (snd (run srv_li getLastIndexed [] s_li)) = Inl (AxiosErr e_li)"
    by (simp add: run_getLastIndexed Let_def)
qed

theorem transport_errors_propagate_witness:
  "isl (offline [] \<lparr>url = API_PATH @ ''/table?'' @ sample_query ''db.orders'' None None,
                 method = GET, AxiosRequestConfig.data = None\<rparr>
          :: (string, string) TableData TableDataAPI AxiosError + (string, string) TableData TableDataAPI AxiosResponse)
   \<and> fst (snd (run_all True offline dashboards_found
        (getTableData (\<lambda>k. k) sample_query
           (\<lambda>t d. (TableData.owners (tableData t), dashboards d))
           (\<lambda>t. TableData.owners (tableData t)) ''db.orders'' None None) ()))
       = Inl (Inl (AxiosErr \<lparr>message = ''Network Error'', response = None\<rparr>))
   \<and> fst (snd (run offline (getTableDescription sample_query 0 sample_heap) [] sample_heap))
       = Inl (AxiosErr \<lparr>message = ''Network Error'', response = None\<rparr>)
   \<and> fst (snd (run (offline :: _ \<Rightarrow> _ \<Rightarrow> unit AxiosError + _)
                 (updateTableDescription ''orders, one row each'' 0 sample_heap) [] ()))
       = Inl (AxiosErr \<lparr>message = ''Network Error'', response = None\<rparr>)
   \<and> fst (snd (run (offline :: unit AxiosRequestConfig list \<Rightarrow> _)
                 (getTableOwners sample_query
                    (\<lambda>t :: (string, string) TableData TableDataAPI. TableData.owners (tableData t))
                    ''db.orders'') [] ()))
       = Inl (AxiosErr \<lparr>message = ''Network Error'', response = None\<rparr>)
   \<and> (0::nat) < length [\<lparr>UpdateOwnerPayload.id = ''alice''\<rparr>]
   \<and> (0::nat) < length (fst (run (offline :: _ \<Rightarrow> _ \<Rightarrow> string UserAPI AxiosError + _)
            (generateOwnerUpdateRequests sample_owner_update (\<lambda>item td h. ''notify'') (\<lambda>u. True)
              [\<lparr>UpdateOwnerPayload.id = ''alice''\<rparr>] 0 sample_heap ! 0) [] ()))
   \<and> fst (snd (run (offline :: _ \<Rightarrow> _ \<Rightarrow> string UserAPI AxiosError + _)
            (generateOwnerUpdateRequests sample_owner_update (\<lambda>item td h. ''notify'') (\<lambda>u. True)
              [\<lparr>UpdateOwnerPayload.id = ''alice''\<rparr>] 0 sample_heap ! 0) [] ()))
       = Inl (AxiosErr \<lparr>message = ''Network Error'', response = None\<rparr>)
   \<and> (0::int) \<le> 1 \<and> 1 < int (length (columns (tables sample_heap 0)))
   \<and> (case getColumnDescription sample_query 1 0 sample_heap of
         Inl e \<Rightarrow> False
       | Inr p \<Rightarrow> fst (snd (run (offline :: unit AxiosRequestConfig list \<Rightarrow> _) p [] sample_heap))
                   = Inl (AxiosErr \<lparr>message = ''Network Error'', response = None\<rparr>))
   \<and> (case updateColumnDescription ''net total'' 1 0 sample_heap of
         Inl e \<Rightarrow> False
       | Inr p \<Rightarrow> fst (snd (run (offline :: _ \<Rightarrow> _ \<Rightarrow> unit AxiosError + _) p [] ()))
                   = Inl (AxiosErr \<lparr>message = ''Network Error'', response = None\<rparr>))
   \<and> fst (snd (run (offline :: unit AxiosRequestConfig list \<Rightarrow> _) getLastIndexed [] ()))
       = Inl (AxiosErr \<lparr>message = ''Network Error'', response = None\<rparr>)"
  using transport_errors_propagate [where srvT = offline and srvD = dashboards_found
      and slug = "\<lambda>k. k" and qp = sample_query
      and mk = "\<lambda>t d. (TableData.owners (tableData t), dashboards d)"
      and ow = "\<lambda>t. TableData.owners (tableData t)" and tableKey = "''db.orders''"
      and index = None and source = None and pf = True and s_all = "()"
      and srv_td = offline and g_td = sample_query and td_td = 0 and h_td = sample_heap
      and h_td' = sample_heap and e_td = "\<lparr>message = ''Network Error'', response = None\<rparr>"
      and srv_ut = "offline :: _ \<Rightarrow> _ \<Rightarrow> unit AxiosError + _" and d_ut = "''orders, one row each''"
      and td_ut = 0 and h_ut = sample_heap and s_ut = "()"
      and e_ut = "\<lparr>message = ''Network Error'', response = None\<rparr>"
      and srv_to = "offline :: unit AxiosRequestConfig list \<Rightarrow> _" and g_to = sample_query
      and ow_to = "\<lambda>t :: (string, string) TableData TableDataAPI. TableData.owners (tableData t)"
      and k_to = "''db.orders''" and s_to = "()"
      and e_to = "\<lparr>message = ''Network Error'', response = None\<rparr>"
      and i_ow = 0 and ua_ow = "[\<lparr>UpdateOwnerPayload.id = ''alice''\<rparr>]"
      and srv_ow = "offline :: _ \<Rightarrow> _ \<Rightarrow> string UserAPI AxiosError + _"
      and c_ow = sample_owner_update and n_ow = "\<lambda>item td h. ''notify''"
      and sh_ow = "\<lambda>u. True" and td_ow = 0 and h_ow = sample_heap and s_ow = "()"
      and k_ow = 0
      and e_ow = "\<lparr>message = ''Network Error'', response = None\<rparr>"
      and i_cd = 1 and srv_cd = "offline :: unit AxiosRequestConfig list \<Rightarrow> _" and g_cd = sample_query
      and td_cd = 0 and h_cd = sample_heap and h_cd' = sample_heap
      and e_cd = "\<lparr>message = ''Network Error'', response = None\<rparr>"
      and i_uc = 1 and srv_uc = "offline :: _ \<Rightarrow> _ \<Rightarrow> unit AxiosError + _" and d_uc = "''net total''"
      and td_uc = 0 and h_uc = sample_heap and s_uc = "()"
      and e_uc = "\<lparr>message = ''Network Error'', response = None\<rparr>"
      and srv_li = "offline :: unit AxiosRequestConfig list \<Rightarrow> _" and s_li = "()"
      and e_li = "\<lparr>message = ''Network Error'', response = None\<rparr>"]
  by (simp add: sample_heap_def sample_query_def offline_def dashboards_found_def
        sample_owner_update_def at_index_def getColumnDescription_def updateColumnDescription_def
        run_getTableDescription run_updateTableDescription run_getTableOwners run_getLastIndexed
        run_all_getTableData run_owner_chain run_then run_axios axios_get_def axios_put_def Let_def)

subsection \<open>Payloads of the description updates\<close>

text \<open>
  Claim C7. \<open>updateTableDescription\<close> sends one PUT whose body is
  \<open>{description, key: tableData.key, source: 'user'}\<close>; with \<open>columnIndex\<close> in bounds,
  \<open>updateColumnDescription\<close> sends one PUT whose body is
  \<open>{description, column_name: tableData.columns[columnIndex].name, key: tableData.key,
  source: 'user'}\<close>.
\<close>

theorem description_update_payloads:
  "inflight (updateTableDescription d td h) =
     [\<lparr>url = API_PATH @ ''/put_table_description'', method = PUT,
       AxiosRequestConfig.data =
         Some [(''description'', d), (''key'', key (tables h td)), (''source'', ''user'')]\<rparr>]
   \<and> fst (run srv (updateTableDescription d td h) [] s) =
     [\<lparr>url = API_PATH @ ''/put_table_description'', method = PUT,
       AxiosRequestConfig.data =
         Some [(''description'', d), (''key'', key (tables h td)), (''source'', ''user'')]\<rparr>]
   \<and> (0 \<le> i \<and> i < int (length (columns (tables h td))) \<longrightarrow>
        (\<exists>p. updateColumnDescription d i td h = Inr p
           \<and> inflight p =
               [\<lparr>url = API_PATH @ ''/put_column_description'', method = PUT,
                 AxiosRequestConfig.data =
                   Some [(''description'', d),
                         (''column_name'', name (cols h (columns (tables h td) ! nat i))),
                         (''key'', key (tables h td)),
                         (''source'', ''user'')]\<rparr>]
           \<and> fst (run srv' p [] s') =
               [\<lparr>url = API_PATH @ ''/put_column_description'', method = PUT,
                 AxiosRequestConfig.data =
                   Some [(''description'', d),
                         (''column_name'', name (cols h (columns (tables h td) ! nat i))),
                         (''key'', key (tables h td)),
                         (''source'', ''user'')]\<rparr>]))"
  by (simp add: updateTableDescription_def updateColumnDescription_def axios_put_def
        inflight_axios run_axios at_index_def Let_def)

theorem description_update_payloads_witness:
  "(0::int) \<le> 1 \<and> 1 < int (length (columns (tables sample_heap 0)))
   \<and> updateColumnDescription ''net total'' 1 0 sample_heap =
       Inr (axios_put (API_PATH @ ''/put_column_description'')
              [(''description'', ''net total''), (''column_name'', ''total''),
               (''key'', ''db.orders''), (''source'', ''user'')])
   \<and> fst (run offline
        (axios_put (API_PATH @ ''/put_column_description'')
              [(''description'', ''net total''), (''column_name'', ''total''),
               (''key'', ''db.orders''), (''source'', ''user'')]) [] ()) =
       [\<lparr>url = API_PATH @ ''/put_column_description'', method = PUT,
         AxiosRequestConfig.data =
           Some [(''description'', ''net total''), (''column_name'', ''total''),
                 (''key'', ''db.orders''), (''source'', ''user'')]\<rparr>]"
  using description_update_payloads [where i = 1 and h = sample_heap and td = 0
      and d = "''net total''" and srv' = offline and s' = "()"]
  by (simp add: sample_heap_def updateColumnDescription_def at_index_def axios_put_def
        run_axios)

subsection \<open>The description getters write in place\<close>

text \<open>
  Claim C8. On success \<open>getTableDescription\<close> and \<open>getColumnDescription\<close> are fulfilled
  with the reference they were given. \<open>getTableDescription\<close> overwrites the
  \<open>description\<close> of that table object and nothing else; \<open>getColumnDescription\<close>
  overwrites the \<open>description\<close> of the column object at \<open>columnIndex\<close> and nothing else:
  every other field, every other object of the heap is as it was when the handler ran.
\<close>

theorem description_getters_mutate_in_place:
  "(srv [] \<lparr>url = API_PATH @ ''/get_table_description?'' @ g (key (tables h td)) None None,
         method = GET, AxiosRequestConfig.data = None\<rparr> = Inr resp
      \<longrightarrow> fst (snd (run srv (getTableDescription g td h) [] h')) = Inr td
        \<and> snd (snd (run srv (getTableDescription g td h) [] h')) =
            h'\<lparr>tables := (tables h')(td := (tables h' td)
                 \<lparr>TableMetadata.description :=
                    DescriptionAPI.description (AxiosResponse.data resp)\<rparr>)\<rparr>)
   \<and> (0 \<le> i \<and> i < int (length (columns (tables h_cd td_cd)))
        \<and> i < int (length (columns (tables h_cd' td_cd)))
        \<and> srv_cd [] \<lparr>url = API_PATH @ ''/get_column_description?'' @ g_cd (key (tables h_cd td_cd)) None None
                        @ ''&column_name='' @ name (cols h_cd (columns (tables h_cd td_cd) ! nat i)),
                  method = GET, AxiosRequestConfig.data = None\<rparr> = Inr resp_cd
      \<longrightarrow> (\<exists>p. getColumnDescription g_cd i td_cd h_cd = Inr p
             \<and> fst (snd (run srv_cd p [] h_cd')) = Inr td_cd
             \<and> snd (snd (run srv_cd p [] h_cd')) =
                 h_cd'\<lparr>cols := (cols h_cd')(columns (tables h_cd' td_cd) ! nat i :=
                        (cols h_cd' (columns (tables h_cd' td_cd) ! nat i))
                        \<lparr>Column.description :=
                           DescriptionAPI.description (AxiosResponse.data resp_cd)\<rparr>)\<rparr>))"
proof (intro conjI impI)
  assume "srv [] \<lparr>url = API_PATH @ ''/get_table_description?'' @ g (key (tables h td)) None None,
         method = GET, AxiosRequestConfig.data = None\<rparr> = Inr resp"
  then show "fst (snd (run srv (getTableDescription g td h) [] h')) = Inr td"
    and "snd (snd (run srv (getTableDescription g td h) [] h')) =
            h'\<lparr>tables := (tables h')(td := (tables h' td)
                 \<lparr>TableMetadata.description :=
                    DescriptionAPI.description (AxiosResponse.data resp)\<rparr>)\<rparr>"
    by (simp_all add: run_getTableDescription Let_def)
next
  assume a: "0 \<le> i \<and> i < int (length (columns (tables h_cd td_cd)))
        \<and> i < int (length (columns (tables h_cd' td_cd)))
        \<and> srv_cd [] \<lparr>url = API_PATH @ ''/get_column_description?'' @ g_cd (key (tables h_cd td_cd)) None None
                        @ ''&column_name='' @ name (cols h_cd (columns (tables h_cd td_cd) ! nat i)),
                  method = GET, AxiosRequestConfig.data = None\<rparr> = Inr resp_cd"
  from a show "\<exists>p. getColumnDescription g_cd i td_cd h_cd = Inr p
             \<and> fst (snd (run srv_cd p [] h_cd')) = Inr td_cd
             \<and> snd (snd (run srv_cd p [] h_cd')) =
                 h_cd'\<lparr>cols := (cols h_cd')(columns (tables h_cd' td_cd) ! nat i :=
                        (cols h_cd' (columns (tables h_cd' td_cd) ! nat i))
                        \<lparr>Column.description :=
                           DescriptionAPI.description (AxiosResponse.data resp_cd)\<rparr>)\<rparr>"
    by (simp add: getColumnDescription_def at_index_def run_then run_axios axios_get_def Let_def)
qed

theorem description_getters_mutate_in_place_witness:
  "described [] \<lparr>url = API_PATH @ ''/get_table_description?'' @ sample_query ''db.orders'' None None,
              method = GET, AxiosRequestConfig.data = None\<rparr>
     = Inr \<lparr>AxiosResponse.data = \<lparr>DescriptionAPI.description = ''new'', msg = ''Success''\<rparr>,
            AxiosResponse.status = 200\<rparr>
   \<and> fst (snd (run described (getTableDescription sample_query 0 sample_heap) [] sample_heap)) = Inr 0
   \<and> snd (snd (run described (getTableDescription sample_query 0 sample_heap) [] sample_heap)) =
       sample_heap\<lparr>tables := (tables sample_heap)(0 :=
         \<lparr>key = ''db.orders'', columns = [0, 1], TableMetadata.description = ''new''\<rparr>)\<rparr>
   \<and> (0::int) \<le> 1 \<and> 1 < int (length (columns (tables sample_heap 0)))
   \<and> described [] \<lparr>url = API_PATH @ ''/get_column_description?'' @ sample_query ''db.orders'' None None
                      @ ''&column_name='' @ ''total'',
                method = GET, AxiosRequestConfig.data = None\<rparr>
     = Inr \<lparr>AxiosResponse.data = \<lparr>DescriptionAPI.description = ''new'', msg = ''Success''\<rparr>,
            AxiosResponse.status = 200\<rparr>
   \<and> (case getColumnDescription sample_query 1 0 sample_heap of
         Inl e \<Rightarrow> False
       | Inr p \<Rightarrow>
           fst (snd (run described p [] sample_heap)) = Inr 0
         \<and> snd (snd (run described p [] sample_heap)) =
             sample_heap\<lparr>cols := (cols sample_heap)(1 :=
               \<lparr>name = ''total'', Column.description = ''new''\<rparr>)\<rparr>)"
  using description_getters_mutate_in_place [where srv = described and g = sample_query
      and h = sample_heap and h' = sample_heap and td = 0
      and resp = "\<lparr>AxiosResponse.data = \<lparr>DescriptionAPI.description = ''new'', msg = ''Success''\<rparr>,
            AxiosResponse.status = 200\<rparr>"
      and i = 1 and srv_cd = described and g_cd = sample_query
      and h_cd = sample_heap and h_cd' = sample_heap and td_cd = 0
      and resp_cd = "\<lparr>AxiosResponse.data = \<lparr>DescriptionAPI.description = ''new'', msg = ''Success''\<rparr>,
            AxiosResponse.status = 200\<rparr>"]
  by (auto simp add: sample_heap_def sample_query_def described_def)

subsection \<open>The column index is not checked\<close>

text \<open>
  Claim C9. With \<open>0 \<le> columnIndex < tableData.columns.length\<close> the column is read and
  both functions send their request, built from the column's name. With any other
  \<open>columnIndex\<close> both throw a \<open>TypeError\<close> and have sent nothing.
\<close>

theorem column_index_unchecked:
  "(0 \<le> i \<and> i < int (length (columns (tables h td))) \<longrightarrow>
      requests_sent (getColumnDescription g i td h) =
        [\<lparr>url = API_PATH @ ''/get_column_description?'' @ g (key (tables h td)) None None
                 @ ''&column_name='' @ name (cols h (columns (tables h td) ! nat i)),
          method = GET, AxiosRequestConfig.data = None\<rparr>]
    \<and> requests_sent (updateColumnDescription d i td h) =
        [\<lparr>url = API_PATH @ ''/put_column_description'', method = PUT,
          AxiosRequestConfig.data =
            Some [(''description'', d),
                  (''column_name'', name (cols h (columns (tables h td) ! nat i))),
                  (''key'', key (tables h td)),
                  (''source'', ''user'')]\<rparr>])
   \<and> (\<not> (0 \<le> i \<and> i < int (length (columns (tables h td)))) \<longrightarrow>
      getColumnDescription g i td h = Inl TypeError
    \<and> requests_sent (getColumnDescription g i td h) = []
    \<and> updateColumnDescription d i td h = Inl TypeError
    \<and> requests_sent (updateColumnDescription d i td h) = [])"
  by (simp add: getColumnDescription_def updateColumnDescription_def requests_sent_def
        at_index_def Let_def axios_get_def axios_put_def inflight_promise_then inflight_axios)

theorem column_index_unchecked_witness:
  "(0::int) \<le> 1 \<and> 1 < int (length (columns (tables sample_heap 0)))
   \<and> requests_sent (getColumnDescription sample_query 1 0 sample_heap) =
       [\<lparr>url = API_PATH @ ''/get_column_description?key=db.orders&column_name=total'',
         method = GET, AxiosRequestConfig.data = None\<rparr>]
   \<and> requests_sent (updateColumnDescription ''net total'' 1 0 sample_heap) =
       [\<lparr>url = API_PATH @ ''/put_column_description'', method = PUT,
         AxiosRequestConfig.data =
           Some [(''description'', ''net total''), (''column_name'', ''total''),
                 (''key'', ''db.orders''), (''source'', ''user'')]\<rparr>]
   \<and> \<not> (0 \<le> (2::int) \<and> 2 < int (length (columns (tables sample_heap 0))))
   \<and> getColumnDescription sample_query 2 0 sample_heap = Inl TypeError
   \<and> requests_sent (getColumnDescription sample_query 2 0 sample_heap) = []
   \<and> updateColumnDescription ''net total'' 2 0 sample_heap = Inl TypeError
   \<and> requests_sent (updateColumnDescription ''net total'' 2 0 sample_heap) = []"
  using column_index_unchecked [where i = 1 and h = sample_heap and td = 0 and g = sample_query
      and d = "''net total''"]
    column_index_unchecked [where i = 2 and h = sample_heap and td = 0 and g = sample_query
      and d = "''net total''"]
  by (simp add: sample_heap_def sample_query_def getColumnDescription_def
        updateColumnDescription_def requests_sent_def at_index_def axios_get_def axios_put_def
        inflight_promise_then inflight_axios)

subsection \<open>One chained request per element\<close>

text \<open>
  Claim C10. The list \<open>generateOwnerUpdateRequests\<close> returns has one promise per element
  of \<open>updateArray\<close>, in the order of \<open>updateArray\<close>, and the promise of an element is the
  chained request of that element: when the function returns it waits for the owner
  update of the element, and run against any server it sends the update, then the user
  fetch for the element's id if the update succeeded, then the notification built for the
  element if the fetch succeeded and the user is to be notified; it is rejected with the
  error of the request that failed, fulfilled with the response to the notification, or
  fulfilled with nothing when no notification is due. For the empty \<open>updateArray\<close> the list
  is empty and nothing is sent.
\<close>

theorem owner_requests_one_per_element:
  "length (generateOwnerUpdateRequests c n sh ua td h) = length ua
   \<and> map inflight (generateOwnerUpdateRequests c n sh ua td h) =
       map (\<lambda>item. [c item (key (tables h td))]) ua
   \<and> map (\<lambda>p. run srv p [] s) (generateOwnerUpdateRequests c n sh ua td h) =
       map (\<lambda>item.
          let upd = c item (key (tables h td));
              get = \<lparr>url = ''/api/metadata/v0/user?user_id='' @ UpdateOwnerPayload.id item,
                     method = GET, AxiosRequestConfig.data = None\<rparr>;
              post = \<lparr>url = ''/api/mail/v0/notification'', method = POST,
                      AxiosRequestConfig.data = Some (n item td h)\<rparr>
          in case srv [] upd of
               Inl e \<Rightarrow> ([upd], Inl (AxiosErr e), s)
             | Inr r \<Rightarrow>
                 (case srv [upd] get of
                    Inl e \<Rightarrow> ([upd, get], Inl (AxiosErr e), s)
                  | Inr resp \<Rightarrow>
                      if sh (user (AxiosResponse.data resp))
                      then (case srv [upd, get] post of
                              Inl e \<Rightarrow> ([upd, get, post], Inl (AxiosErr e), s)
                            | Inr r' \<Rightarrow> ([upd, get, post], Inr (Some r'), s))
                      else ([upd, get], Inr None, s))) ua
   \<and> generateOwnerUpdateRequests c n sh [] td h = []
   \<and> concat (map inflight (generateOwnerUpdateRequests c n sh [] td h)) = []"
proof -
  have len: "length (generateOwnerUpdateRequests c n sh ua td h) = length ua"
    by (simp add: generateOwnerUpdateRequests_map)
  have roots: "map inflight (generateOwnerUpdateRequests c n sh ua td h) =
       map (\<lambda>item. [c item (key (tables h td))]) ua"
    by (simp add: generateOwnerUpdateRequests_map inflight_promise_then inflight_axios)
  have chains: "map (\<lambda>p. run srv p [] s) (generateOwnerUpdateRequests c n sh ua td h) =
       map (\<lambda>item.
          let upd = c item (key (tables h td));
              get = \<lparr>url = ''/api/metadata/v0/user?user_id='' @ UpdateOwnerPayload.id item,
                     method = GET, AxiosRequestConfig.data = None\<rparr>;
              post = \<lparr>url = ''/api/mail/v0/notification'', method = POST,
                      AxiosRequestConfig.data = Some (n item td h)\<rparr>
          in case srv [] upd of
               Inl e \<Rightarrow> ([upd], Inl (AxiosErr e), s)
             | Inr r \<Rightarrow>
                 (case srv [upd] get of
                    Inl e \<Rightarrow> ([upd, get], Inl (AxiosErr e), s)
                  | Inr resp \<Rightarrow>
                      if sh (user (AxiosResponse.data resp))
                      then (case srv [upd, get] post of
                              Inl e \<Rightarrow> ([upd, get, post], Inl (AxiosErr e), s)
                            | Inr r' \<Rightarrow> ([upd, get, post], Inr (Some r'), s))
                      else ([upd, get], Inr None, s))) ua"
    by (simp add: generateOwnerUpdateRequests_map run_then run_map run_axios axios_get_def
          axios_post_def Let_def split: sum.splits)
  have emp: "generateOwnerUpdateRequests c n sh [] td h = []"
    by (simp add: generateOwnerUpdateRequests_map)
  have none: "concat (map inflight (generateOwnerUpdateRequests c n sh [] td h)) = []"
    by (simp add: emp)
  show ?thesis
    by (intro conjI) (rule len, rule roots, rule chains, rule emp, rule none)
qed

theorem owner_requests_one_per_element_witness:
  "map (\<lambda>p. run user_found p [] ())
     (generateOwnerUpdateRequests sample_owner_update (\<lambda>item td h. ''notify'')
        (\<lambda>u. u = ''alice'')
        [\<lparr>UpdateOwnerPayload.id = ''alice''\<rparr>, \<lparr>UpdateOwnerPayload.id = ''bob''\<rparr>] 0 sample_heap) =
   [([\<lparr>url = ''/api/metadata/v0/update_table_owner'', method = PUT,
        AxiosRequestConfig.data = Some ''alice''\<rparr>,
       \<lparr>url = ''/api/metadata/v0/user?user_id=alice'', method = GET,
        AxiosRequestConfig.data = None\<rparr>,
       \<lparr>url = ''/api/mail/v0/notification'', method = POST,
        AxiosRequestConfig.data = Some ''notify''\<rparr>],
      Inr (Some \<lparr>AxiosResponse.data = \<lparr>user = ''alice''\<rparr>, AxiosResponse.status = 200\<rparr>), ()),
     ([\<lparr>url = ''/api/metadata/v0/update_table_owner'', method = PUT,
        AxiosRequestConfig.data = Some ''bob''\<rparr>,
       \<lparr>url = ''/api/metadata/v0/user?user_id=bob'', method = GET,
        AxiosRequestConfig.data = None\<rparr>,
       \<lparr>url = ''/api/mail/v0/notification'', method = POST,
        AxiosRequestConfig.data = Some ''notify''\<rparr>],
      Inr (Some \<lparr>AxiosResponse.data = \<lparr>user = ''alice''\<rparr>, AxiosResponse.status = 200\<rparr>), ())]"
  using owner_requests_one_per_element [where srv = user_found and c = sample_owner_update
      and n = "\<lambda>item td h. ''notify''" and sh = "\<lambda>u. u = ''alice''"
      and ua = "[\<lparr>UpdateOwnerPayload.id = ''alice''\<rparr>, \<lparr>UpdateOwnerPayload.id = ''bob''\<rparr>]"
      and td = 0 and h = sample_heap and s = "()"]
  by (simp add: Let_def user_found_def sample_owner_update_def generateOwnerUpdateRequests_map
        run_then run_map run_axios axios_get_def axios_post_def)

end
